theory Spec2Isabelle
  imports Complex_Main "HOL-Library.Log_Nat"
begin

section \<open>JavaScript numbers\<close>

text \<open>
  Cost, quantity and wallet balance are JavaScript numbers, that is IEEE 754 binary64
  values: \<open>NaN\<close>, the two infinities, the negative zero, and the finite values, which
  \<open>Num\<close> gives by their exact rational value (\<open>Num 0\<close> is the positive zero). The
  service uses \<^verbatim>\<open>*\<close>, \<^verbatim>\<open>+\<close>, \<^verbatim>\<open>-\<close> and \<^verbatim>\<open><\<close> on them; each arithmetic
  operation returns the exact result rounded to the nearest binary64 value, ties to the
  even significand.
\<close>

datatype number = NaN | PosInfinity | NegInfinity | NegZero | Num rat

text \<open>\<open>pow2 k\<close> is 2 to the power \<open>k\<close>, for an integer \<open>k\<close> of either sign.\<close>

definition pow2 :: "int \<Rightarrow> rat" where
  "pow2 k = (if 0 \<le> k then 2 ^ nat k else 1 / 2 ^ nat (- k))"

text \<open>
  For a positive rational \<open>a\<close>, \<open>floorLog2 a\<close> is the integer \<open>k\<close> with
  \<open>2\<^sup>k \<le> a < 2\<^sup>k\<^sup>+\<^sup>1\<close> (lemma \<open>floorLog2_bounds\<close>); \<open>bitlen n\<close> is the number of
  binary digits of \<open>n\<close>.
\<close>

definition floorLog2 :: "rat \<Rightarrow> int" where
  "floorLog2 a =
     (if 1 \<le> a then bitlen \<lfloor>a\<rfloor> - 1
      else - bitlen (\<lceil>1 / a\<rceil> - 1))"

text \<open>Rounding to the nearest integer, a tie going to the even one.\<close>

definition roundHalfEven :: "rat \<Rightarrow> int" where
  "roundHalfEven q =
     (let f = \<lfloor>q\<rfloor>; d = q - of_int f
      in if d < 1 / 2 then f else if 1 / 2 < d then f + 1 else if even f then f else f + 1)"

text \<open>
  Rounding an exact result to binary64: the significand has 53 bits, the least exponent
  of the last significand bit is \<open>-1074\<close> (below \<open>2\<^sup>-\<^sup>1\<^sup>0\<^sup>2\<^sup>2\<close> the values are
  subnormal), a result that rounds to \<open>2\<^sup>1\<^sup>0\<^sup>2\<^sup>4\<close> or more is an infinity, and a nonzero
  result that rounds to zero keeps its sign.
\<close>

definition roundToDouble :: "rat \<Rightarrow> number" where
  "roundToDouble r =
     (if r = 0 then Num 0
      else let a = \<bar>r\<bar>;
               e = max (floorLog2 a - 52) (- 1074);
               m = roundHalfEven (a / pow2 e);
               v = of_int m * pow2 e
           in if pow2 1024 \<le> v then (if 0 < r then PosInfinity else NegInfinity)
              else if m = 0 then (if 0 < r then Num 0 else NegZero)
              else Num (if 0 < r then v else - v))"

fun isZero :: "number \<Rightarrow> bool" where
  "isZero NegZero = True"
| "isZero (Num r) = (r = 0)"
| "isZero _ = False"

fun isInfinite :: "number \<Rightarrow> bool" where
  "isInfinite PosInfinity = True"
| "isInfinite NegInfinity = True"
| "isInfinite _ = False"

text \<open>The sign bit of a number other than \<open>NaN\<close>.\<close>

fun isNegative :: "number \<Rightarrow> bool" where
  "isNegative NegInfinity = True"
| "isNegative NegZero = True"
| "isNegative (Num r) = (r < 0)"
| "isNegative _ = False"

text \<open>The value of a finite number; both zeros have the value 0.\<close>

fun finiteValue :: "number \<Rightarrow> rat" where
  "finiteValue (Num r) = r"
| "finiteValue _ = 0"

text \<open>
  \<^verbatim>\<open>a * b\<close>: \<open>NaN\<close> when an operand is \<open>NaN\<close> or when an infinity meets a zero; an
  infinity or a zero otherwise when an operand is one, with the sign negative exactly when
  the signs of the operands differ; the rounded product otherwise.
\<close>

definition js_mul :: "number \<Rightarrow> number \<Rightarrow> number" where
  "js_mul a b =
     (if a = NaN \<or> b = NaN then NaN
      else if isInfinite a \<or> isInfinite b
      then (if isZero a \<or> isZero b then NaN
            else if isNegative a \<noteq> isNegative b then NegInfinity else PosInfinity)
      else if isZero a \<or> isZero b
      then (if isNegative a \<noteq> isNegative b then NegZero else Num 0)
      else roundToDouble (finiteValue a * finiteValue b))"

text \<open>Unary minus flips the sign, of the zeros too.\<close>

fun js_neg :: "number \<Rightarrow> number" where
  "js_neg NaN = NaN"
| "js_neg PosInfinity = NegInfinity"
| "js_neg NegInfinity = PosInfinity"
| "js_neg NegZero = Num 0"
| "js_neg (Num r) = (if r = 0 then NegZero else Num (- r))"

text \<open>
  \<^verbatim>\<open>a + b\<close>: \<open>NaN\<close> when an operand is \<open>NaN\<close> or the operands are infinities of
  opposite sign; the infinity when one operand is one; the sum of two zeros is the negative
  zero only when both are; a zero added to a nonzero number leaves it; otherwise the
  rounded sum, which is the positive zero when the exact sum is 0.
\<close>

definition js_add :: "number \<Rightarrow> number \<Rightarrow> number" where
  "js_add a b =
     (if a = NaN \<or> b = NaN then NaN
      else if isInfinite a \<and> isInfinite b then (if a = b then a else NaN)
      else if isInfinite a then a
      else if isInfinite b then b
      else if isZero a \<and> isZero b
      then (if isNegative a \<and> isNegative b then NegZero else Num 0)
      else if isZero a then b
      else if isZero b then a
      else roundToDouble (finiteValue a + finiteValue b))"

text \<open>\<^verbatim>\<open>a - b\<close> is \<^verbatim>\<open>a + (-b)\<close>.\<close>

definition js_sub :: "number \<Rightarrow> number \<Rightarrow> number" where
  "js_sub a b = js_add a (js_neg b)"

text \<open>
  \<^verbatim>\<open>a < b\<close> and \<^verbatim>\<open>a <= b\<close>: false when an operand is \<open>NaN\<close>; the two zeros are
  equal.
\<close>

definition js_lt :: "number \<Rightarrow> number \<Rightarrow> bool" where
  "js_lt a b =
     (if a = NaN \<or> b = NaN then False
      else if a = PosInfinity \<or> b = NegInfinity then False
      else if a = NegInfinity \<or> b = PosInfinity then True
      else finiteValue a < finiteValue b)"

definition js_le :: "number \<Rightarrow> number \<Rightarrow> bool" where
  "js_le a b =
     (if a = NaN \<or> b = NaN then False
      else if a = NegInfinity \<or> b = PosInfinity then True
      else if a = PosInfinity \<or> b = NegInfinity then False
      else finiteValue a \<le> finiteValue b)"

section \<open>Data model\<close>

text \<open>
  The cart service of QKart (\<^verbatim>\<open>src/services/cart.service.js\<close>) works on three
  document collections: carts, products and users. The Mongoose models, the user's
  \<^verbatim>\<open>hasSetNonDefaultAddress\<close> method, \<^verbatim>\<open>ApiError\<close> and the \<^verbatim>\<open>http-status\<close> table
  are required by the service but are not part of the sources at hand; the parts of them
  that the service touches are given below.
\<close>

text \<open>
  Modelled from the spec: the identifier of a product document (field \<^verbatim>\<open>_id\<close> of the
  Product model, which is not among the sources). An identifier is represented by the
  string that its \<^verbatim>\<open>toString()\<close> yields.
\<close>

datatype objectId = ObjectId string

fun toString :: "objectId \<Rightarrow> string" where
  "toString (ObjectId s) = s"

text \<open>
  Modelled from the spec: a product has an id and a cost; a line item is a copy of a
  product plus a quantity; a cart has the owner's email and an ordered sequence of line
  items; a user account has an email, a wallet balance and the derived flag telling
  whether a non-default address has been set (\<^verbatim>\<open>user.hasSetNonDefaultAddress()\<close>).
  The field \<^verbatim>\<open>_id\<close> is written \<open>id'\<close>.
\<close>

record product =
  id' :: objectId
  cost :: number

record cartItem =
  product :: product
  quantity :: number

record cart =
  email :: string
  cartItems :: "cartItem list"

record user =
  email :: string
  walletMoney :: number
  hasSetNonDefaultAddress :: bool

subsection \<open>Errors\<close>

text \<open>
  \<^verbatim>\<open>new ApiError(statusCode, message)\<close>; the message of an \<^verbatim>\<open>ApiError\<close> built
  without one is the empty string. \<^verbatim>\<open>TypeError\<close> is what \<^verbatim>\<open>Array.prototype.reduce\<close>
  throws on an empty array when no initial value is passed.
\<close>

datatype error = ApiError nat string | TypeError

definition NOT_FOUND :: nat where
  "NOT_FOUND = 404"

definition BAD_REQUEST :: nat where
  "BAD_REQUEST = 400"

definition INTERNAL_SERVER_ERROR :: nat where
  "INTERNAL_SERVER_ERROR = 500"

subsection \<open>The document store\<close>

text \<open>
  Modelled from the spec: the store holds one cart per user email, the product catalog
  keyed by the product id passed to \<^verbatim>\<open>Product.findById\<close>, and the user records keyed by
  email. \<open>acceptsCreate\<close> tells whether \<^verbatim>\<open>Cart.create\<close> yields a document; when it
  does not, the service sees a falsy value.
\<close>

record db =
  carts :: "string \<rightharpoonup> cart"
  products :: "string \<rightharpoonup> product"
  users :: "string \<rightharpoonup> user"
  acceptsCreate :: bool

text \<open>Modelled from the spec: \<^verbatim>\<open>Cart.findOne({email: e}).exec()\<close>.\<close>

definition Cart_findOne :: "db \<Rightarrow> string \<Rightarrow> cart option" where
  "Cart_findOne d e = carts d e"

text \<open>
  Modelled from the spec: \<^verbatim>\<open>Cart.create({email: e})\<close> stores a cart with no line
  items for \<open>e\<close> and returns it.
\<close>

definition Cart_create :: "db \<Rightarrow> string \<Rightarrow> cart option \<times> db" where
  "Cart_create d e =
     (if acceptsCreate d
      then (let c = \<lparr>cart.email = e, cartItems = []\<rparr>
            in (Some c, d\<lparr>carts := (carts d)(e \<mapsto> c)\<rparr>))
      else (None, d))"

text \<open>
  Modelled from the spec: \<^verbatim>\<open>cartObj.save()\<close> writes the whole document back to the
  place it was loaded from, which is the entry of the email it was found under.
\<close>

definition Cart_save :: "db \<Rightarrow> string \<Rightarrow> cart \<Rightarrow> db" where
  "Cart_save d e c = d\<lparr>carts := (carts d)(e \<mapsto> c)\<rparr>"

text \<open>Modelled from the spec: \<^verbatim>\<open>Product.findById(productId)\<close>, a read-only lookup.\<close>

definition Product_findById :: "db \<Rightarrow> string \<Rightarrow> product option" where
  "Product_findById d productId = products d productId"

text \<open>Modelled from the spec: \<^verbatim>\<open>user.save()\<close> writes the user record back.\<close>

definition User_save :: "db \<Rightarrow> user \<Rightarrow> db" where
  "User_save d u = d\<lparr>users := (users d)(user.email u \<mapsto> u)\<rparr>"

section \<open>The cart service\<close>

text \<open>
  Every operation takes the store and returns its result together with the store it
  leaves behind, so that what a failing call has already written stays visible.
\<close>

definition getCartByUser :: "db \<Rightarrow> user \<Rightarrow> error + cart" where
  "getCartByUser d u =
     (case Cart_findOne d (user.email u) of
        None \<Rightarrow> Inl (ApiError NOT_FOUND ''User does not have a cart'')
      | Some cartObj \<Rightarrow> Inr cartObj)"

text \<open>The scan of \<^verbatim>\<open>checkProductInCart\<close>: the loop stops at the first line that matches.\<close>

fun checkProductInCart :: "cartItem list \<Rightarrow> string \<Rightarrow> bool" where
  "checkProductInCart [] productId = False"
| "checkProductInCart (item # items) productId =
     (if toString (id' (product item)) = productId then True
      else checkProductInCart items productId)"

definition addProductToCart :: "db \<Rightarrow> user \<Rightarrow> string \<Rightarrow> number \<Rightarrow> (error + cart) \<times> db" where
  "addProductToCart d u productId qty =
     (let (found, d1) =
            (case Cart_findOne d (user.email u) of
               None \<Rightarrow> Cart_create d (user.email u)
             | Some c \<Rightarrow> (Some c, d))
      in case found of
           None \<Rightarrow> (Inl (ApiError INTERNAL_SERVER_ERROR ''''), d1)
         | Some cartObj \<Rightarrow>
             if checkProductInCart (cartItems cartObj) productId
             then (Inl (ApiError BAD_REQUEST
                    ''Product already in cart. Use the cart sidebar to update or remove product from cart''), d1)
             else (case Product_findById d1 productId of
                     None \<Rightarrow> (Inl (ApiError BAD_REQUEST ''Product doesn't exist in database''), d1)
                   | Some prodObj \<Rightarrow>
                       (let updatedCart = cartObj\<lparr>cartItems :=
                              cartItems cartObj @ [\<lparr>product = prodObj, quantity = qty\<rparr>]\<rparr>
                        in (Inr updatedCart, Cart_save d1 (user.email u) updatedCart))))"

text \<open>
  The update loop of \<^verbatim>\<open>updateProductInCart\<close>: the first line whose product id matches
  gets the new quantity, and the loop stops there.
\<close>

fun setQuantity :: "cartItem list \<Rightarrow> string \<Rightarrow> number \<Rightarrow> cartItem list" where
  "setQuantity [] productId qty = []"
| "setQuantity (item # items) productId qty =
     (if toString (id' (product item)) = productId then item\<lparr>quantity := qty\<rparr> # items
      else item # setQuantity items productId qty)"

definition updateProductInCart :: "db \<Rightarrow> user \<Rightarrow> string \<Rightarrow> number \<Rightarrow> (error + cart) \<times> db" where
  "updateProductInCart d u productId qty =
     (case Cart_findOne d (user.email u) of
        None \<Rightarrow> (Inl (ApiError BAD_REQUEST
                  ''User does not have a cart. Use POST to create cart and add a product''), d)
      | Some cartObj \<Rightarrow>
          (case Product_findById d productId of
             None \<Rightarrow> (Inl (ApiError BAD_REQUEST ''Product doesn't exist in database''), d)
           | Some prodObj \<Rightarrow>
               if \<not> checkProductInCart (cartItems cartObj) productId
               then (Inl (ApiError BAD_REQUEST ''Product not in cart''), d)
               else (let updatedCart =
                           cartObj\<lparr>cartItems := setQuantity (cartItems cartObj) productId qty\<rparr>
                     in (Inr updatedCart, Cart_save d (user.email u) updatedCart))))"

definition deleteProductFromCart :: "db \<Rightarrow> user \<Rightarrow> string \<Rightarrow> (error + cart) \<times> db" where
  "deleteProductFromCart d u productId =
     (case Cart_findOne d (user.email u) of
        None \<Rightarrow> (Inl (ApiError BAD_REQUEST ''User does not have a cart''), d)
      | Some cartObj \<Rightarrow>
          if \<not> checkProductInCart (cartItems cartObj) productId
          then (Inl (ApiError BAD_REQUEST ''Product not in cart''), d)
          else (let updatedCartItems =
                      filter (\<lambda>item. toString (id' (product item)) \<noteq> productId) (cartItems cartObj);
                    updatedCart = cartObj\<lparr>cartItems := updatedCartItems\<rparr>
                in (Inr updatedCart, Cart_save d (user.email u) updatedCart)))"

text \<open>
  \<^verbatim>\<open>xs.reduce(f)\<close> with no initial value: the first element starts the accumulator,
  and an empty array is a \<^verbatim>\<open>TypeError\<close>.
\<close>

fun reduce :: "('a \<Rightarrow> 'a \<Rightarrow> 'a) \<Rightarrow> 'a list \<Rightarrow> error + 'a" where
  "reduce f [] = Inl TypeError"
| "reduce f (x # xs) = Inr (foldl f x xs)"

text \<open>
  \<^verbatim>\<open>checkout\<close> also changes the user object it was given, so it returns that object
  next to the store.
\<close>

definition checkout :: "db \<Rightarrow> user \<Rightarrow> (error + unit) \<times> db \<times> user" where
  "checkout d u =
     (case getCartByUser d u of
        Inl e \<Rightarrow> (Inl e, d, u)
      | Inr cartObj \<Rightarrow>
          if length (cartItems cartObj) = 0
          then (Inl (ApiError BAD_REQUEST ''No products in cart''), d, u)
          else (case reduce (\<lambda>prevValue currValue. js_add prevValue currValue)
                       (map (\<lambda>item. js_mul (cost (product item)) (quantity item))
                          (cartItems cartObj)) of
                  Inl e \<Rightarrow> (Inl e, d, u)
                | Inr total' \<Rightarrow>
                    if js_lt (walletMoney u) total'
                    then (Inl (ApiError BAD_REQUEST ''Insufficient Balance''), d, u)
                    else if \<not> hasSetNonDefaultAddress u
                    then (Inl (ApiError BAD_REQUEST ''No address set''), d, u)
                    else (let cartObj' = cartObj\<lparr>cartItems := []\<rparr>;
                              u' = u\<lparr>walletMoney := js_sub (walletMoney u) total'\<rparr>;
                              d1 = Cart_save d (user.email u) cartObj';
                              d2 = User_save d1 u'
                          in (Inr (), d2, u'))))"

section \<open>Notions of the specification\<close>

text \<open>
  The total of a cart as checkout computes it: the products cost times quantity of the
  lines, added from left to right, every operation in JavaScript arithmetic.
\<close>

definition cartTotal :: "cartItem list \<Rightarrow> number" where
  "cartTotal items =
     (case map (\<lambda>item. js_mul (cost (product item)) (quantity item)) items of
        [] \<Rightarrow> Num 0
      | x # xs \<Rightarrow> foldl js_add x xs)"

text \<open>
  The total of a cart in exact arithmetic, for finite costs and quantities: the sum over
  the line items of the value of the cost times the value of the quantity.
\<close>

definition exactTotal :: "cartItem list \<Rightarrow> rat" where
  "exactTotal items =
     sum_list (map (\<lambda>item. finiteValue (cost (product item)) * finiteValue (quantity item)) items)"

text \<open>The numbers that are a non-negative integer (the negative zero is not one).\<close>

definition isNatNumber :: "number \<Rightarrow> bool" where
  "isNatNumber n = (case n of Num r \<Rightarrow> 0 \<le> r \<and> of_int \<lfloor>r\<rfloor> = r | _ \<Rightarrow> False)"

text \<open>
  The invariants of a cart: the product ids of its lines, as strings, are pairwise
  distinct, and every quantity is at least 1 (\<^verbatim>\<open>1 <= quantity\<close>).
  \<open>cartInvariantAt d e\<close> says that the cart stored for the email \<open>e\<close>, if there is
  one, satisfies them.
\<close>

definition cartInvariant :: "cart \<Rightarrow> bool" where
  "cartInvariant c \<longleftrightarrow>
     distinct (map (\<lambda>item. toString (id' (product item))) (cartItems c)) \<and>
     (\<forall>item \<in> set (cartItems c). js_le (Num 1) (quantity item))"

definition cartInvariantAt :: "db \<Rightarrow> string \<Rightarrow> bool" where
  "cartInvariantAt d e = (case carts d e of None \<Rightarrow> True | Some c \<Rightarrow> cartInvariant c)"

section \<open>Example data\<close>

text \<open>
  Scenario A of the specification: one line of two units at cost 100, a wallet of 500
  and an address that has been set. The other users differ in their wallet, their address
  flag or their cart.
\<close>

definition scenarioProduct :: product where
  "scenarioProduct = \<lparr>id' = ObjectId ''p1'', cost = Num 100\<rparr>"

definition scenarioUser :: user where
  "scenarioUser =
     \<lparr>user.email = ''crio@qkart.com'', walletMoney = Num 500, hasSetNonDefaultAddress = True\<rparr>"

definition scenarioCart :: cart where
  "scenarioCart =
     \<lparr>cart.email = ''crio@qkart.com'',
      cartItems = [\<lparr>product = scenarioProduct, quantity = Num 2\<rparr>]\<rparr>"

definition scenarioDb :: db where
  "scenarioDb = \<lparr>carts = [''crio@qkart.com'' \<mapsto> scenarioCart],
                  products = [''p1'' \<mapsto> scenarioProduct],
                  users = [''crio@qkart.com'' \<mapsto> scenarioUser],
                  acceptsCreate = True\<rparr>"

definition newUser :: user where
  "newUser = \<lparr>user.email = ''new@qkart.com'', walletMoney = Num 0, hasSetNonDefaultAddress = False\<rparr>"






definition secondProduct :: product where
  "secondProduct = \<lparr>id' = ObjectId ''p2'', cost = Num 30\<rparr>"

definition thirdProduct :: product where
  "thirdProduct = \<lparr>id' = ObjectId ''p3'', cost = Num 5\<rparr>"

definition twoLineCart :: cart where
  "twoLineCart =
     \<lparr>cart.email = ''two@qkart.com'',
      cartItems = [\<lparr>product = secondProduct, quantity = Num 1\<rparr>,
                   \<lparr>product = scenarioProduct, quantity = Num 2\<rparr>]\<rparr>"

definition twoLineUser :: user where
  "twoLineUser =
     \<lparr>user.email = ''two@qkart.com'', walletMoney = Num 1000, hasSetNonDefaultAddress = True\<rparr>"

definition twoLineDb :: db where
  "twoLineDb = \<lparr>carts = [''two@qkart.com'' \<mapsto> twoLineCart],
                 products = [''p1'' \<mapsto> scenarioProduct, ''p2'' \<mapsto> secondProduct,
                             ''p3'' \<mapsto> thirdProduct],
                 users = [''two@qkart.com'' \<mapsto> twoLineUser],
                 acceptsCreate = True\<rparr>"

text \<open>
  A store whose catalog no longer holds the product of a cart line, a store that refuses
  to create a cart, and a cart whose exact total, \<open>2\<^sup>5\<^sup>3 + 1\<close>, is not a binary64
  value, with a wallet of \<open>2\<^sup>5\<^sup>3 + 2\<close>.
\<close>

definition staleDb :: db where
  "staleDb = scenarioDb\<lparr>products := Map.empty\<rparr>"

definition refusingDb :: db where
  "refusingDb = scenarioDb\<lparr>acceptsCreate := False\<rparr>"

definition bigCart :: cart where
  "bigCart =
     \<lparr>cart.email = ''big@qkart.com'',
      cartItems = [\<lparr>product = \<lparr>id' = ObjectId ''p4'', cost = Num 9007199254740992\<rparr>,
                    quantity = Num 1\<rparr>,
                   \<lparr>product = \<lparr>id' = ObjectId ''p5'', cost = Num 1\<rparr>, quantity = Num 1\<rparr>]\<rparr>"

definition bigUser :: user where
  "bigUser =
     \<lparr>user.email = ''big@qkart.com'', walletMoney = Num 9007199254740994,
      hasSetNonDefaultAddress = True\<rparr>"

definition bigDb :: db where
  "bigDb = \<lparr>carts = [''big@qkart.com'' \<mapsto> bigCart],
             products = Map.empty,
             users = [''big@qkart.com'' \<mapsto> bigUser],
             acceptsCreate = True\<rparr>"

section \<open>Facts about the arithmetic\<close>

lemma pow2_nonneg: "0 \<le> k \<Longrightarrow> pow2 k = 2 ^ nat k"
  by (simp add: pow2_def)

lemma pow2_minus: "0 \<le> j \<Longrightarrow> pow2 (- j) = 1 / 2 ^ nat j"
  by (cases "j = 0") (simp_all add: pow2_def)

lemma floorLog2_bounds:
  assumes "0 < a"
  shows "pow2 (floorLog2 a) \<le> a \<and> a < pow2 (floorLog2 a + 1)"
proof (cases "1 \<le> a")
  case True
  define n where "n = \<lfloor>a\<rfloor>"
  from True have n1: "1 \<le> n" by (simp add: n_def le_floor_iff)
  then have npos: "0 < n" by simp
  have k1: "1 \<le> bitlen n" using npos by (simp add: bitlen_alt_def)
  have fl: "floorLog2 a = bitlen n - 1" using True by (simp add: floorLog2_def n_def)
  from bitlen_bounds [OF npos] have lo: "2 ^ nat (bitlen n - 1) \<le> n" and hi: "n < 2 ^ nat (bitlen n)"
    by simp_all
  have "(of_int (2 ^ nat (bitlen n - 1)) :: rat) \<le> of_int n" using lo by (simp only: of_int_le_iff)
  also have "(of_int n :: rat) \<le> a" by (simp add: n_def)
  finally have low: "pow2 (floorLog2 a) \<le> a" using k1 by (simp add: fl pow2_nonneg)
  have "n + 1 \<le> 2 ^ nat (bitlen n)" using hi by simp
  then have "(of_int (n + 1) :: rat) \<le> of_int (2 ^ nat (bitlen n))" by (simp only: of_int_le_iff)
  moreover have "a < of_int (n + 1)" by (simp add: n_def) linarith
  ultimately have "a < pow2 (floorLog2 a + 1)" using k1 by (simp add: fl pow2_nonneg)
  with low show ?thesis by simp
next
  case False
  define b where "b = 1 / a"
  define n where "n = \<lceil>b\<rceil> - 1"
  from False assms have b1: "1 < b" by (simp add: b_def)
  have ab: "a = 1 / b" by (simp add: b_def)
  from b1 have "2 \<le> \<lceil>b\<rceil>" by (simp add: le_ceiling_iff)
  then have npos: "0 < n" by (simp add: n_def)
  have nb: "of_int n < b" by (simp add: n_def) linarith
  have bn: "b \<le> of_int (n + 1)" by (simp add: n_def) 
  have k1: "1 \<le> bitlen n" using npos by (simp add: bitlen_alt_def)
  have fl: "floorLog2 a = - bitlen n" using False by (simp add: floorLog2_def n_def b_def)
  from bitlen_bounds [OF npos] have lo: "2 ^ nat (bitlen n - 1) \<le> n" and hi: "n < 2 ^ nat (bitlen n)"
    by simp_all
  have "n + 1 \<le> 2 ^ nat (bitlen n)" using hi by simp
  then have "(of_int (n + 1) :: rat) \<le> of_int (2 ^ nat (bitlen n))" by (simp only: of_int_le_iff)
  with bn have "b \<le> 2 ^ nat (bitlen n)" by simp
  then have "1 / 2 ^ nat (bitlen n) \<le> 1 / b" using b1 by (simp add: frac_le)
  moreover have "pow2 (floorLog2 a) = 1 / 2 ^ nat (bitlen n)"
    using k1 by (simp add: fl pow2_minus)
  ultimately have low: "pow2 (floorLog2 a) \<le> a" by (simp only: ab [symmetric])
  have "(2 ^ nat (bitlen n - 1) :: rat) \<le> of_int n"
    using lo by (metis of_int_le_iff of_int_numeral of_int_power)
  with nb have "2 ^ nat (bitlen n - 1) < b" by linarith
  then have "1 / b < 1 / 2 ^ nat (bitlen n - 1)" by (simp add: frac_less2)
  moreover have "pow2 (floorLog2 a + 1) = 1 / 2 ^ nat (bitlen n - 1)"
    using k1 pow2_minus [of "bitlen n - 1"] by (simp add: fl)
  ultimately have "a < pow2 (floorLog2 a + 1)" by (simp only: ab [symmetric])
  with low show ?thesis by simp
qed

lemma roundHalfEven_of_int: "roundHalfEven (of_int z) = z"
  by (simp add: roundHalfEven_def)

lemma bitlen_le_54:
  assumes "0 < a" and "a \<le> 2 ^ 53"
  shows "1 \<le> bitlen a \<and> bitlen a \<le> 54"
proof -
  from assms(1) have pos: "1 \<le> bitlen a"
    by (simp add: bitlen_alt_def)
  from bitlen_bounds [OF assms(1)] assms(2) have "(2::int) ^ nat (bitlen a - 1) < 2 ^ 54"
    by simp
  then have "nat (bitlen a - 1) < 54"
    by (simp only: power_strict_increasing_iff)
  with pos show ?thesis by simp
qed

lemma scaled_int:
  assumes "0 < a" and "a \<le> 2 ^ 53"
  shows "\<exists>m. m \<noteq> 0 \<and> (of_int a :: rat) / pow2 (bitlen a - 53) = of_int m \<and>
             (of_int m :: rat) * pow2 (bitlen a - 53) = of_int a"
proof (cases "bitlen a - 53 \<le> 0")
  case True
  define n where "n = nat (- (bitlen a - 53))"
  have p: "pow2 (bitlen a - 53) = 1 / 2 ^ n"
    using True pow2_minus [of "- (bitlen a - 53)"] by (simp add: n_def)
  have "a * 2 ^ n \<noteq> 0" using assms(1) by simp
  moreover have "(of_int a :: rat) / pow2 (bitlen a - 53) = of_int (a * 2 ^ n)"
    by (simp add: p)
  moreover have "(of_int (a * 2 ^ n) :: rat) * pow2 (bitlen a - 53) = of_int a"
    by (simp add: p)
  ultimately show ?thesis by blast
next
  case False
  with bitlen_le_54 [OF assms] have b: "bitlen a = 54" by simp
  with bitlen_bounds [OF assms(1)] have "2 ^ 53 \<le> a" by simp
  with assms(2) have a: "a = 2 ^ 53" by simp
  have p: "pow2 (bitlen a - 53) = 2" by (simp add: b pow2_def)
  have "(2 ^ 52 :: int) \<noteq> 0" by simp
  moreover have "(of_int a :: rat) / pow2 (bitlen a - 53) = of_int (2 ^ 52)"
    by (simp only: p) (simp add: a)
  moreover have "(of_int (2 ^ 52) :: rat) * pow2 (bitlen a - 53) = of_int a"
    by (simp only: p) (simp add: a)
  ultimately show ?thesis by blast
qed

text \<open>Rounding leaves the integers up to \<open>2\<^sup>5\<^sup>3\<close> as they are.\<close>

lemma roundToDouble_pos_int:
  assumes "0 < a" and "a \<le> 2 ^ 53"
  shows "roundToDouble (of_int a) = Num (of_int a)"
proof -
  from assms(1) have one: "1 \<le> a" by simp
  from scaled_int [OF assms] obtain m where m: "m \<noteq> 0"
      "(of_int a :: rat) / pow2 (bitlen a - 53) = of_int m"
      "(of_int m :: rat) * pow2 (bitlen a - 53) = of_int a"
    by blast
  from bitlen_le_54 [OF assms] have e: "max (floorLog2 (of_int a) - 52) (- 1074) = bitlen a - 53"
    using one by (simp add: floorLog2_def)
  have "(of_int a :: rat) \<le> 2 ^ 53"
    using assms(2) by (metis of_int_le_iff of_int_numeral of_int_power)
  also have "(2 ^ 53 :: rat) < 2 ^ 1024" by (simp only: power_strict_increasing_iff)
  finally have small: "\<not> pow2 1024 \<le> (of_int a :: rat)" by (simp add: pow2_def)
  have pos: "(0::rat) < of_int a" "(of_int a :: rat) \<noteq> 0" "\<bar>of_int a :: rat\<bar> = of_int a"
    using assms(1) by simp_all
  show ?thesis
    unfolding roundToDouble_def Let_def pos(3) e m(2) roundHalfEven_of_int m(3)
    using small pos(1,2) m(1) by simp
qed

lemma roundToDouble_nat:
  assumes "k \<le> 2 ^ 53"
  shows "roundToDouble (of_nat k) = Num (of_nat k)"
proof (cases "k = 0")
  case True
  then show ?thesis by (simp add: roundToDouble_def)
next
  case False
  then have "0 < int k" by simp
  moreover have "int k \<le> 2 ^ 53" using assms by (metis of_nat_le_iff of_nat_numeral of_nat_power)
  ultimately have "roundToDouble (of_int (int k)) = Num (of_int (int k))"
    by (rule roundToDouble_pos_int)
  then show ?thesis by simp
qed

lemma js_mul_nat:
  "x * y \<le> 2 ^ 53 \<Longrightarrow> js_mul (Num (of_nat x)) (Num (of_nat y)) = Num (of_nat (x * y))"
  using roundToDouble_nat [of "x * y"] by (simp add: js_mul_def)

lemma js_add_nat:
  "x + y \<le> 2 ^ 53 \<Longrightarrow> js_add (Num (of_nat x)) (Num (of_nat y)) = Num (of_nat (x + y))"
  using roundToDouble_nat [of "x + y"] by (simp add: js_add_def)

lemma js_sub_nat:
  assumes "y \<le> x" and "x \<le> 2 ^ 53"
  shows "js_sub (Num (of_nat x)) (Num (of_nat y)) = Num (of_nat (x - y))"
proof -
  from assms have "x - y \<le> 2 ^ 53" by simp
  from roundToDouble_nat [OF this] assms(1)
  have "roundToDouble (of_nat x - of_nat y) = Num (of_nat x - of_nat y)"
    by simp
  with assms(1) show ?thesis
    by (auto simp: js_sub_def js_add_def)
qed

lemma js_lt_nat: "js_lt (Num (of_nat x)) (Num (of_nat y)) \<longleftrightarrow> x < y"
  by (simp add: js_lt_def)

lemma isNatNumber_Num: "isNatNumber n \<Longrightarrow> n = Num (of_nat (nat \<lfloor>finiteValue n\<rfloor>))"
  by (cases n) (auto simp: isNatNumber_def)

lemma isNatNumber_value: "isNatNumber n \<Longrightarrow> finiteValue n = of_nat (nat \<lfloor>finiteValue n\<rfloor>)"
  by (cases n) (auto simp: isNatNumber_def)

lemma elem_le_sum_list: "(k::nat) \<in> set ks \<Longrightarrow> k \<le> sum_list ks"
  by (induction ks) auto

lemma foldl_js_add_nat:
  "a + sum_list ks \<le> 2 ^ 53 \<Longrightarrow>
   foldl js_add (Num (of_nat a)) (map (\<lambda>k. Num (of_nat k)) ks) = Num (of_nat (a + sum_list ks))"
proof (induction ks arbitrary: a)
  case Nil
  then show ?case by simp
next
  case (Cons k ks)
  from Cons.prems have "a + k \<le> 2 ^ 53" and "(a + k) + sum_list ks \<le> 2 ^ 53" by simp_all
  with Cons.IH [of "a + k"] show ?case
    by (simp add: js_add_nat add.assoc)
qed

lemma cartTotal_exact:
  assumes nat: "\<forall>item \<in> set items. isNatNumber (cost (product item)) \<and> isNatNumber (quantity item)"
    and bound: "exactTotal items \<le> 2 ^ 53"
  shows "cartTotal items = Num (exactTotal items)"
proof -
  define line :: "cartItem \<Rightarrow> nat" where "line = (\<lambda>item. nat \<lfloor>finiteValue (cost (product item))\<rfloor> *
                                    nat \<lfloor>finiteValue (quantity item)\<rfloor>)"
  have lineValue: "finiteValue (cost (product item)) * finiteValue (quantity item) = of_nat (line item)"
    if "item \<in> set items" for item
    using that nat isNatNumber_value [of "cost (product item)"]
      isNatNumber_value [of "quantity item"]
    by (simp add: line_def)
  have "map (\<lambda>item. finiteValue (cost (product item)) * finiteValue (quantity item)) items =
      map (\<lambda>item. of_nat (line item)) items"
    by (rule map_cong) (simp_all add: lineValue)
  then have "exactTotal items = sum_list (map (\<lambda>item. of_nat (line item)) items)"
    unfolding exactTotal_def by (rule arg_cong)
  also have "\<dots> = sum_list (map of_nat (map line items))"
    by (simp add: comp_def)
  finally have exact: "exactTotal items = of_nat (sum_list (map line items))"
    by (simp only: sum_list_of_nat)
  with bound have "(of_nat (sum_list (map line items)) :: rat) \<le> 2 ^ 53" by simp
  then have total: "sum_list (map line items) \<le> 2 ^ 53"
    by (metis of_nat_le_iff of_nat_numeral of_nat_power)
  have small: "line item \<le> 2 ^ 53" if "item \<in> set items" for item
  proof -
    from that have "line item \<in> set (map line items)" by simp
    then have "line item \<le> sum_list (map line items)"
      by (rule elem_le_sum_list)
    with total show ?thesis by simp
  qed
  have "js_mul (cost (product item)) (quantity item) = Num (of_nat (line item))"
    if "item \<in> set items" for item
  proof -
    from that nat have "cost (product item) = Num (of_nat (nat \<lfloor>finiteValue (cost (product item))\<rfloor>))"
      and "quantity item = Num (of_nat (nat \<lfloor>finiteValue (quantity item)\<rfloor>))"
      by (simp_all add: isNatNumber_Num)
    then have "js_mul (cost (product item)) (quantity item) =
        js_mul (Num (of_nat (nat \<lfloor>finiteValue (cost (product item))\<rfloor>)))
               (Num (of_nat (nat \<lfloor>finiteValue (quantity item)\<rfloor>)))"
      by simp
    also have "\<dots> = Num (of_nat (line item))"
      using small [OF that] unfolding line_def by (rule js_mul_nat)
    finally show ?thesis .
  qed
  then have lines: "map (\<lambda>item. js_mul (cost (product item)) (quantity item)) items =
      map (\<lambda>k. Num (of_nat k)) (map line items)"
    by simp
  show ?thesis
  proof (cases "map line items")
    case Nil
    then have "items = []" by simp
    then show ?thesis by (simp add: cartTotal_def exactTotal_def)
  next
    case (Cons k ks)
    with total have "k + sum_list ks \<le> 2 ^ 53" by simp
    from foldl_js_add_nat [OF this] Cons show ?thesis
      by (simp add: cartTotal_def lines exact)
  qed
qed

lemma reduce_cartTotal:
  "items \<noteq> [] \<Longrightarrow>
   reduce (\<lambda>prevValue currValue. js_add prevValue currValue)
     (map (\<lambda>item. js_mul (cost (product item)) (quantity item)) items) = Inr (cartTotal items)"
  by (cases items) (simp_all add: cartTotal_def)

lemma isNatNumber_obtain: "isNatNumber n \<Longrightarrow> \<exists>k. n = Num (of_nat k)"
  using isNatNumber_Num by blast

lemma nat_rat_obtain:
  assumes "0 \<le> t" and "of_int \<lfloor>t\<rfloor> = t"
  shows "\<exists>k. (t::rat) = of_nat k"
proof -
  from assms(1) have "0 \<le> \<lfloor>t\<rfloor>" by simp
  then have "(of_nat (nat \<lfloor>t\<rfloor>) :: rat) = of_int \<lfloor>t\<rfloor>" by simp
  with assms(2) have "t = of_nat (nat \<lfloor>t\<rfloor>)" by linarith
  then show ?thesis ..
qed

lemma js_sub_exact:
  assumes "isNatNumber w" and "finiteValue w \<le> 2 ^ 53" and "0 \<le> t" and "of_int \<lfloor>t\<rfloor> = t"
    and "\<not> js_lt w (Num t)"
  shows "js_sub w (Num t) = Num (finiteValue w - t)"
proof -
  from isNatNumber_obtain [OF assms(1)] obtain x where w: "w = Num (of_nat x)" ..
  from nat_rat_obtain [OF assms(3,4)] obtain y where t: "t = of_nat y" ..
  from assms(5) have yx: "y \<le> x" by (simp add: w t js_lt_nat)
  from assms(2) have "(of_nat x :: rat) \<le> 2 ^ 53" by (simp add: w)
  then have "x \<le> 2 ^ 53" by (metis of_nat_le_iff of_nat_numeral of_nat_power)
  with yx have "js_sub (Num (of_nat x)) (Num (of_nat y)) = Num (of_nat (x - y))"
    by (rule js_sub_nat)
  with yx show ?thesis by (simp add: w t)
qed

lemma exactTotal_nat:
  assumes "\<forall>item \<in> set items. isNatNumber (cost (product item)) \<and> isNatNumber (quantity item)"
  shows "0 \<le> exactTotal items \<and> of_int \<lfloor>exactTotal items\<rfloor> = exactTotal items"
  using assms
proof (induction items)
  case Nil
  then show ?case by (simp add: exactTotal_def)
next
  case (Cons item items)
  then have ih: "0 \<le> exactTotal items" "of_int \<lfloor>exactTotal items\<rfloor> = exactTotal items"
    by simp_all
  from Cons.prems have "isNatNumber (cost (product item))" and "isNatNumber (quantity item)"
    by simp_all
  then obtain c q where "cost (product item) = Num (of_nat c)" and "quantity item = Num (of_nat q)"
    using isNatNumber_obtain by blast
  then have k: "finiteValue (cost (product item)) * finiteValue (quantity item) = of_nat (c * q)"
    by simp
  have e: "exactTotal (item # items) = of_nat (c * q) + exactTotal items"
    by (simp add: exactTotal_def k)
  have "exactTotal (item # items) = of_int (int (c * q) + \<lfloor>exactTotal items\<rfloor>)"
    by (simp only: e of_int_add ih(2))
  then obtain z where z: "exactTotal (item # items) = of_int z" ..
  have "of_int \<lfloor>exactTotal (item # items)\<rfloor> = exactTotal (item # items)"
    by (simp only: z floor_of_int)
  moreover have "0 \<le> exactTotal (item # items)"
    using ih(1) by (simp add: e)
  ultimately show ?case by simp
qed

section \<open>The membership helper\<close>

text \<open>
  C8. \<open>checkProductInCart\<close>, the helper that add, update and delete share, answers
  true exactly when some line item's product id, turned into a string, equals the given
  productId.
\<close>

theorem checkProductInCart_iff:
  "checkProductInCart items productId \<longleftrightarrow>
     (\<exists>item \<in> set items. toString (id' (product item)) = productId)"
  by (induction items) auto

theorem checkProductInCart_iff_witness:
  "checkProductInCart (cartItems scenarioCart) ''p1'' \<and>
   (\<exists>item \<in> set (cartItems scenarioCart). toString (id' (product item)) = ''p1'') \<and>
   \<not> checkProductInCart (cartItems scenarioCart) ''p2'' \<and>
   \<not> (\<exists>item \<in> set (cartItems scenarioCart). toString (id' (product item)) = ''p2'')"
  using checkProductInCart_iff [of "cartItems scenarioCart" "''p1''"]
    checkProductInCart_iff [of "cartItems scenarioCart" "''p2''"]
  by (simp add: scenarioCart_def scenarioProduct_def)

lemma checkProductInCart_image:
  "checkProductInCart items productId \<longleftrightarrow>
     productId \<in> set (map (\<lambda>item. toString (id' (product item))) items)"
  by (induction items) auto

section \<open>Checkout\<close>

lemma scenarioCart_total: "cartTotal (cartItems scenarioCart) = Num 200"
  using js_mul_nat [of 100 2]
  by (simp add: cartTotal_def scenarioCart_def scenarioProduct_def)

lemma scenarioCart_exactTotal: "exactTotal (cartItems scenarioCart) = 200"
  by (simp add: exactTotal_def scenarioCart_def scenarioProduct_def)

lemma scenario_difference: "js_sub (Num 500) (Num 200) = Num 300"
  using js_sub_nat [of 200 500] by simp

lemma round_above_2_53: "roundToDouble 9007199254740993 = Num 9007199254740992"
  by code_simp

lemma bigCart_total: "cartTotal (cartItems bigCart) = Num 9007199254740992"
  using js_mul_nat [of 9007199254740992 1] js_mul_nat [of 1 1]
  by (simp add: cartTotal_def bigCart_def js_add_def round_above_2_53)

lemma bigCart_exactTotal: "exactTotal (cartItems bigCart) = 9007199254740993"
  by (simp add: exactTotal_def bigCart_def)

lemma big_difference: "js_sub (Num 9007199254740994) (Num 9007199254740992) = Num 2"
  using roundToDouble_nat [of 2] by (simp add: js_sub_def js_add_def)

lemma checkout_succeeds:
  assumes "carts d (user.email u) = Some c"
    and "cartItems c \<noteq> []"
    and "\<not> js_lt (walletMoney u) (cartTotal (cartItems c))"
    and "hasSetNonDefaultAddress u"
  shows "checkout d u =
    (Inr (),
     d\<lparr>carts := (carts d)(user.email u \<mapsto> c\<lparr>cartItems := []\<rparr>),
       users := (users d)(user.email u \<mapsto>
                  u\<lparr>walletMoney := js_sub (walletMoney u) (cartTotal (cartItems c))\<rparr>)\<rparr>,
     u\<lparr>walletMoney := js_sub (walletMoney u) (cartTotal (cartItems c))\<rparr>)"
  using assms
  by (simp add: checkout_def getCartByUser_def Cart_findOne_def reduce_cartTotal
      Cart_save_def User_save_def Let_def)

lemma exact_amounts:
  assumes nat: "\<forall>item \<in> set items. isNatNumber (cost (product item)) \<and> isNatNumber (quantity item)"
    and w: "isNatNumber w" "finiteValue w \<le> 2 ^ 53"
    and le: "exactTotal items \<le> finiteValue w"
  shows "cartTotal items = Num (exactTotal items)"
    and "\<not> js_lt w (cartTotal items)"
    and "js_sub w (cartTotal items) = Num (finiteValue w - exactTotal items)"
proof -
  from le w(2) have "exactTotal items \<le> 2 ^ 53" by simp
  with nat show total: "cartTotal items = Num (exactTotal items)"
    by (rule cartTotal_exact)
  from isNatNumber_obtain [OF w(1)] obtain x where "w = Num (of_nat x)" ..
  with le show notless: "\<not> js_lt w (cartTotal items)"
    by (simp add: total js_lt_def)
  from exactTotal_nat [OF nat] have "0 \<le> exactTotal items"
    and "of_int \<lfloor>exactTotal items\<rfloor> = exactTotal items"
    by simp_all
  with w notless show "js_sub w (cartTotal items) = Num (finiteValue w - exactTotal items)"
    unfolding total by (intro js_sub_exact)
qed

text \<open>
  C1, as stated, fails. The cart below has the lines (cost \<open>2\<^sup>5\<^sup>3\<close>, quantity 1) and
  (cost 1, quantity 1), so its total is \<open>2\<^sup>5\<^sup>3 + 1\<close>; the wallet holds \<open>2\<^sup>5\<^sup>3 + 2\<close>
  and the address is set. Checkout succeeds, but the sum it computes is rounded to
  \<open>2\<^sup>5\<^sup>3\<close>, and the wallet is left with 2 where the exact total would leave 1.
\<close>

theorem checkout_success_counterexample:
  "carts bigDb (user.email bigUser) = Some bigCart \<and>
   cartItems bigCart \<noteq> [] \<and>
   exactTotal (cartItems bigCart) = 9007199254740993 \<and>
   exactTotal (cartItems bigCart) \<le> finiteValue (walletMoney bigUser) \<and>
   hasSetNonDefaultAddress bigUser \<and>
   fst (checkout bigDb bigUser) = Inr () \<and>
   walletMoney (snd (snd (checkout bigDb bigUser))) = Num 2 \<and>
   finiteValue (walletMoney bigUser) - exactTotal (cartItems bigCart) = 1"
proof -
  have h1: "carts bigDb (user.email bigUser) = Some bigCart"
    by (simp add: bigDb_def bigUser_def)
  have h2: "cartItems bigCart \<noteq> []"
    by (simp add: bigCart_def)
  have h3: "\<not> js_lt (walletMoney bigUser) (cartTotal (cartItems bigCart))"
    by (simp add: bigCart_total bigUser_def js_lt_def)
  have h4: "hasSetNonDefaultAddress bigUser"
    by (simp add: bigUser_def)
  have w: "js_sub (walletMoney bigUser) (cartTotal (cartItems bigCart)) = Num 2"
    by (simp add: bigCart_total bigUser_def big_difference)
  show ?thesis
    using h1 h2 h4 w checkout_succeeds [OF h1 h2 h3 h4]
    by (simp add: bigCart_exactTotal) (simp add: bigUser_def)
qed

text \<open>
  C1, amended. Let the user's cart exist and have at least one line, and let a
  non-default address be set. When the wallet is not less than the total as checkout
  computes it (the products cost times quantity of the lines added from left to right in
  binary64 arithmetic), checkout succeeds: the stored cart has an empty item list, the
  wallet of the user object and of the stored user record is the binary64 difference of
  the old wallet and that total, and nothing else in the store changes. When moreover all
  costs, all quantities and the wallet are non-negative integers, the wallet is at most
  \<open>2\<^sup>5\<^sup>3\<close> and at least the exact total, that total is the exact sum of cost times
  quantity and the wallet is decremented by exactly it.
\<close>

theorem checkout_success:
  assumes "carts d (user.email u) = Some c"
    and "cartItems c \<noteq> []"
    and "hasSetNonDefaultAddress u"
  shows "(\<not> js_lt (walletMoney u) (cartTotal (cartItems c)) \<longrightarrow>
            checkout d u =
              (Inr (),
               d\<lparr>carts := (carts d)(user.email u \<mapsto> c\<lparr>cartItems := []\<rparr>),
                 users := (users d)(user.email u \<mapsto>
                    u\<lparr>walletMoney := js_sub (walletMoney u) (cartTotal (cartItems c))\<rparr>)\<rparr>,
               u\<lparr>walletMoney := js_sub (walletMoney u) (cartTotal (cartItems c))\<rparr>)) \<and>
         ((\<forall>item \<in> set (cartItems c).
              isNatNumber (cost (product item)) \<and> isNatNumber (quantity item)) \<and>
          isNatNumber (walletMoney u) \<and> finiteValue (walletMoney u) \<le> 2 ^ 53 \<and>
          exactTotal (cartItems c) \<le> finiteValue (walletMoney u) \<longrightarrow>
            checkout d u =
              (Inr (),
               d\<lparr>carts := (carts d)(user.email u \<mapsto> c\<lparr>cartItems := []\<rparr>),
                 users := (users d)(user.email u \<mapsto>
                    u\<lparr>walletMoney := Num (finiteValue (walletMoney u) - exactTotal (cartItems c))\<rparr>)\<rparr>,
               u\<lparr>walletMoney := Num (finiteValue (walletMoney u) - exactTotal (cartItems c))\<rparr>))"
proof (intro conjI impI)
  assume "\<not> js_lt (walletMoney u) (cartTotal (cartItems c))"
  from checkout_succeeds [OF assms(1,2) this assms(3)]
  show "checkout d u =
              (Inr (),
               d\<lparr>carts := (carts d)(user.email u \<mapsto> c\<lparr>cartItems := []\<rparr>),
                 users := (users d)(user.email u \<mapsto>
                    u\<lparr>walletMoney := js_sub (walletMoney u) (cartTotal (cartItems c))\<rparr>)\<rparr>,
               u\<lparr>walletMoney := js_sub (walletMoney u) (cartTotal (cartItems c))\<rparr>)" .
next
  assume h: "(\<forall>item \<in> set (cartItems c).
              isNatNumber (cost (product item)) \<and> isNatNumber (quantity item)) \<and>
          isNatNumber (walletMoney u) \<and> finiteValue (walletMoney u) \<le> 2 ^ 53 \<and>
          exactTotal (cartItems c) \<le> finiteValue (walletMoney u)"
  then have nat: "\<forall>item \<in> set (cartItems c).
              isNatNumber (cost (product item)) \<and> isNatNumber (quantity item)"
    and w: "isNatNumber (walletMoney u)" "finiteValue (walletMoney u) \<le> 2 ^ 53"
    and le: "exactTotal (cartItems c) \<le> finiteValue (walletMoney u)"
    by simp_all
  note ex = exact_amounts [OF nat w le]
  from checkout_succeeds [OF assms(1,2) ex(2) assms(3)]
  show "checkout d u =
              (Inr (),
               d\<lparr>carts := (carts d)(user.email u \<mapsto> c\<lparr>cartItems := []\<rparr>),
                 users := (users d)(user.email u \<mapsto>
                    u\<lparr>walletMoney := Num (finiteValue (walletMoney u) - exactTotal (cartItems c))\<rparr>)\<rparr>,
               u\<lparr>walletMoney := Num (finiteValue (walletMoney u) - exactTotal (cartItems c))\<rparr>)"
    by (simp only: ex(3))
qed

theorem checkout_success_witness:
  "carts scenarioDb (user.email scenarioUser) = Some scenarioCart \<and>
   cartItems scenarioCart \<noteq> [] \<and>
   hasSetNonDefaultAddress scenarioUser \<and>
   cartTotal (cartItems scenarioCart) = Num 200 \<and>
   \<not> js_lt (walletMoney scenarioUser) (cartTotal (cartItems scenarioCart)) \<and>
   isNatNumber (cost (product (hd (cartItems scenarioCart)))) \<and>
   isNatNumber (quantity (hd (cartItems scenarioCart))) \<and>
   isNatNumber (walletMoney scenarioUser) \<and>
   finiteValue (walletMoney scenarioUser) \<le> 2 ^ 53 \<and>
   exactTotal (cartItems scenarioCart) \<le> finiteValue (walletMoney scenarioUser) \<and>
   fst (checkout scenarioDb scenarioUser) = Inr () \<and>
   walletMoney (snd (snd (checkout scenarioDb scenarioUser))) = Num 300 \<and>
   map_option cartItems
     (carts (fst (snd (checkout scenarioDb scenarioUser))) ''crio@qkart.com'') = Some [] \<and>
   map_option walletMoney
     (users (fst (snd (checkout scenarioDb scenarioUser))) ''crio@qkart.com'') = Some (Num 300)"
proof -
  have h1: "carts scenarioDb (user.email scenarioUser) = Some scenarioCart"
    by (simp add: scenarioDb_def scenarioUser_def)
  have h2: "cartItems scenarioCart \<noteq> []"
    by (simp add: scenarioCart_def)
  have h3: "hasSetNonDefaultAddress scenarioUser"
    by (simp add: scenarioUser_def)
  have a: "\<not> js_lt (walletMoney scenarioUser) (cartTotal (cartItems scenarioCart))"
    by (simp add: scenarioCart_total scenarioUser_def js_lt_def)
  have n: "\<forall>item \<in> set (cartItems scenarioCart).
      isNatNumber (cost (product item)) \<and> isNatNumber (quantity item)"
    by (simp add: scenarioCart_def scenarioProduct_def isNatNumber_def)
  have w: "isNatNumber (walletMoney scenarioUser) \<and> finiteValue (walletMoney scenarioUser) \<le> 2 ^ 53 \<and>
      exactTotal (cartItems scenarioCart) \<le> finiteValue (walletMoney scenarioUser)"
    by (simp add: scenarioCart_exactTotal scenarioUser_def isNatNumber_def)
  have r1: "checkout scenarioDb scenarioUser =
      (Inr (),
       scenarioDb\<lparr>carts := (carts scenarioDb)(user.email scenarioUser \<mapsto> scenarioCart\<lparr>cartItems := []\<rparr>),
         users := (users scenarioDb)(user.email scenarioUser \<mapsto>
            scenarioUser\<lparr>walletMoney := js_sub (walletMoney scenarioUser) (cartTotal (cartItems scenarioCart))\<rparr>)\<rparr>,
       scenarioUser\<lparr>walletMoney := js_sub (walletMoney scenarioUser) (cartTotal (cartItems scenarioCart))\<rparr>)"
    using a checkout_success [OF h1 h2 h3] by blast
  have r2: "checkout scenarioDb scenarioUser =
      (Inr (),
       scenarioDb\<lparr>carts := (carts scenarioDb)(user.email scenarioUser \<mapsto> scenarioCart\<lparr>cartItems := []\<rparr>),
         users := (users scenarioDb)(user.email scenarioUser \<mapsto>
            scenarioUser\<lparr>walletMoney := Num (finiteValue (walletMoney scenarioUser) - exactTotal (cartItems scenarioCart))\<rparr>)\<rparr>,
       scenarioUser\<lparr>walletMoney := Num (finiteValue (walletMoney scenarioUser) - exactTotal (cartItems scenarioCart))\<rparr>)"
    using n w checkout_success [OF h1 h2 h3] by blast
  have d: "finiteValue (walletMoney scenarioUser) - exactTotal (cartItems scenarioCart) = 300"
    by (simp add: scenarioCart_exactTotal scenarioUser_def)
  have n': "isNatNumber (cost (product (hd (cartItems scenarioCart)))) \<and>
      isNatNumber (quantity (hd (cartItems scenarioCart)))"
    by (simp add: scenarioCart_def scenarioProduct_def isNatNumber_def)
  show ?thesis
    using h1 h2 h3 a n' w scenarioCart_total
    by (simp add: r2 d) (simp add: scenarioUser_def)
qed



text \<open>
  C10. The total in checkout comes from a \<open>reduce\<close> without an initial accumulator,
  which fails with a \<open>TypeError\<close> on an empty list and returns a value on every other
  list. On a cart with at least one line it returns the total, and no call of checkout ends in the
  \<open>TypeError\<close>: the guard on the empty cart comes first.
\<close>

theorem checkout_total_reduce:
  "reduce f [] = Inl TypeError \<and>
   (xs \<noteq> [] \<longrightarrow> reduce f xs = Inr (foldl f (hd xs) (tl xs))) \<and>
   (cartItems c \<noteq> [] \<longrightarrow>
      reduce (\<lambda>prevValue currValue. js_add prevValue currValue)
        (map (\<lambda>item. js_mul (cost (product item)) (quantity item)) (cartItems c))
      = Inr (cartTotal (cartItems c))) \<and>
   fst (checkout d u) \<noteq> Inl TypeError"
proof -
  have "xs \<noteq> [] \<longrightarrow> reduce f xs = Inr (foldl f (hd xs) (tl xs))"
    by (cases xs) simp_all
  moreover have "fst (checkout d u) \<noteq> Inl TypeError"
    by (simp add: reduce_cartTotal checkout_def getCartByUser_def Cart_findOne_def Let_def
        split: option.split)
  ultimately show ?thesis
    by (simp add: reduce_cartTotal)
qed

theorem checkout_total_reduce_witness:
  "cartItems scenarioCart \<noteq> [] \<and>
   reduce (\<lambda>prevValue currValue. js_add prevValue currValue)
     (map (\<lambda>item. js_mul (cost (product item)) (quantity item)) (cartItems scenarioCart)) =
     Inr (Num 200) \<and>
   reduce max [3, 1, 2 :: nat] = Inr 3 \<and>
   fst (checkout scenarioDb scenarioUser) \<noteq> Inl TypeError"
proof -
  have h: "cartItems scenarioCart \<noteq> []"
    by (simp add: scenarioCart_def)
  show ?thesis
    using h scenarioCart_total
      checkout_total_reduce [of js_add "[Num 1]" scenarioCart scenarioDb scenarioUser]
      checkout_total_reduce [of max "[3, 1, 2 :: nat]" scenarioCart scenarioDb scenarioUser]
    by simp
qed

section \<open>Adding a product\<close>

text \<open>
  C4. When the user's cart already holds a line for productId, addProductToCart fails
  with 400 "Product already in cart..." and returns the store as it was; no quantity is
  touched.
\<close>

theorem addProductToCart_already_in_cart:
  assumes "carts d (user.email u) = Some c"
    and "checkProductInCart (cartItems c) productId"
  shows "addProductToCart d u productId qty =
    (Inl (ApiError BAD_REQUEST
       ''Product already in cart. Use the cart sidebar to update or remove product from cart''), d)"
  using assms by (simp add: addProductToCart_def Cart_findOne_def)

theorem addProductToCart_already_in_cart_witness:
  "carts scenarioDb (user.email scenarioUser) = Some scenarioCart \<and>
   checkProductInCart (cartItems scenarioCart) ''p1'' \<and>
   addProductToCart scenarioDb scenarioUser ''p1'' (Num 7) =
    (Inl (ApiError BAD_REQUEST
       ''Product already in cart. Use the cart sidebar to update or remove product from cart''),
     scenarioDb)"
proof -
  have h1: "carts scenarioDb (user.email scenarioUser) = Some scenarioCart"
    by (simp add: scenarioDb_def scenarioUser_def)
  have h2: "checkProductInCart (cartItems scenarioCart) ''p1''"
    by (simp add: scenarioCart_def scenarioProduct_def)
  show ?thesis
    using h1 h2 addProductToCart_already_in_cart [OF h1 h2, of "Num 7"] by simp
qed

text \<open>
  C3, as stated, fails, in three ways. For a user without a cart and a productId that
  the catalog does not know, the call fails with 400 "Product doesn't exist in database",
  but the empty cart that was created before the lookup stays in the store. When the cart
  holds a line for a product that the catalog no longer knows, the error is 400 "Product
  already in cart...", since the cart is looked at before the catalog. When the user has no
  cart and the store does not create one, the error is 500.
\<close>

theorem addProductToCart_unknown_product_counterexample:
  "products scenarioDb ''p9'' = None \<and>
   carts scenarioDb (user.email newUser) = None \<and>
   fst (addProductToCart scenarioDb newUser ''p9'' (Num 1)) =
     Inl (ApiError BAD_REQUEST ''Product doesn't exist in database'') \<and>
   carts (snd (addProductToCart scenarioDb newUser ''p9'' (Num 1))) (user.email newUser) =
     Some \<lparr>cart.email = ''new@qkart.com'', cartItems = []\<rparr> \<and>
   snd (addProductToCart scenarioDb newUser ''p9'' (Num 1)) \<noteq> scenarioDb \<and>
   products staleDb ''p1'' = None \<and>
   fst (addProductToCart staleDb scenarioUser ''p1'' (Num 1)) =
     Inl (ApiError BAD_REQUEST
       ''Product already in cart. Use the cart sidebar to update or remove product from cart'') \<and>
   products refusingDb ''p9'' = None \<and>
   carts refusingDb (user.email newUser) = None \<and>
   fst (addProductToCart refusingDb newUser ''p9'' (Num 1)) =
     Inl (ApiError INTERNAL_SERVER_ERROR [])"
proof -
  have a: "carts scenarioDb (user.email newUser) = None"
    by (simp add: scenarioDb_def newUser_def)
  have b: "carts (snd (addProductToCart scenarioDb newUser ''p9'' (Num 1))) (user.email newUser) =
     Some \<lparr>cart.email = ''new@qkart.com'', cartItems = []\<rparr>"
    by (simp add: addProductToCart_def Cart_findOne_def Cart_create_def Product_findById_def
        scenarioDb_def newUser_def Let_def)
  have c: "snd (addProductToCart scenarioDb newUser ''p9'' (Num 1)) \<noteq> scenarioDb"
    using a b by auto
  have d: "fst (addProductToCart scenarioDb newUser ''p9'' (Num 1)) =
     Inl (ApiError BAD_REQUEST ''Product doesn't exist in database'')"
    by (simp add: addProductToCart_def Cart_findOne_def Cart_create_def Product_findById_def
        scenarioDb_def newUser_def Let_def)
  have e: "products scenarioDb ''p9'' = None"
    by (simp add: scenarioDb_def)
  have f: "products staleDb ''p1'' = None"
    by (simp add: staleDb_def)
  have g: "fst (addProductToCart staleDb scenarioUser ''p1'' (Num 1)) =
     Inl (ApiError BAD_REQUEST
       ''Product already in cart. Use the cart sidebar to update or remove product from cart'')"
    by (simp add: addProductToCart_def Cart_findOne_def staleDb_def scenarioDb_def
        scenarioUser_def scenarioCart_def scenarioProduct_def)
  have h: "products refusingDb ''p9'' = None \<and> carts refusingDb (user.email newUser) = None"
    by (simp add: refusingDb_def scenarioDb_def newUser_def)
  have i: "fst (addProductToCart refusingDb newUser ''p9'' (Num 1)) =
     Inl (ApiError INTERNAL_SERVER_ERROR [])"
    by (simp add: addProductToCart_def Cart_findOne_def Cart_create_def refusingDb_def
        scenarioDb_def newUser_def)
  show ?thesis using a b c d e f g h i by simp
qed

text \<open>
  C3, amended. For a productId that the catalog does not know, addProductToCart fails.
  When the user has a cart, it fails with 400 and returns the store as it was; the message
  is "Product doesn't exist in database" when the cart holds no line for productId and
  "Product already in cart..." when it holds one. When the user has no cart and the store
  accepts the creation, it fails with 400 "Product doesn't exist in database" and the only
  change to the store is the new cart without lines for that user. When the user has no
  cart and the store does not create one, it fails with 500 (and no message) and returns
  the store as it was.
\<close>

theorem addProductToCart_unknown_product:
  assumes "products d productId = None"
  shows "(carts d (user.email u) = Some c \<and> \<not> checkProductInCart (cartItems c) productId \<longrightarrow>
            addProductToCart d u productId qty =
              (Inl (ApiError BAD_REQUEST ''Product doesn't exist in database''), d)) \<and>
         (carts d (user.email u) = Some c \<and> checkProductInCart (cartItems c) productId \<longrightarrow>
            addProductToCart d u productId qty =
              (Inl (ApiError BAD_REQUEST
                 ''Product already in cart. Use the cart sidebar to update or remove product from cart''),
               d)) \<and>
         (carts d (user.email u) = None \<and> acceptsCreate d \<longrightarrow>
            addProductToCart d u productId qty =
              (Inl (ApiError BAD_REQUEST ''Product doesn't exist in database''),
               d\<lparr>carts := (carts d)(user.email u \<mapsto>
                    \<lparr>cart.email = user.email u, cartItems = []\<rparr>)\<rparr>)) \<and>
         (carts d (user.email u) = None \<and> \<not> acceptsCreate d \<longrightarrow>
            addProductToCart d u productId qty =
              (Inl (ApiError INTERNAL_SERVER_ERROR []), d))"
  using assms
  by (simp add: addProductToCart_def Cart_findOne_def Cart_create_def Product_findById_def Let_def)

theorem addProductToCart_unknown_product_witness:
  "products scenarioDb ''p9'' = None \<and>
   carts scenarioDb (user.email scenarioUser) = Some scenarioCart \<and>
   \<not> checkProductInCart (cartItems scenarioCart) ''p9'' \<and>
   addProductToCart scenarioDb scenarioUser ''p9'' (Num 1) =
     (Inl (ApiError BAD_REQUEST ''Product doesn't exist in database''), scenarioDb) \<and>
   products staleDb ''p1'' = None \<and>
   carts staleDb (user.email scenarioUser) = Some scenarioCart \<and>
   checkProductInCart (cartItems scenarioCart) ''p1'' \<and>
   addProductToCart staleDb scenarioUser ''p1'' (Num 1) =
     (Inl (ApiError BAD_REQUEST
        ''Product already in cart. Use the cart sidebar to update or remove product from cart''),
      staleDb) \<and>
   carts scenarioDb (user.email newUser) = None \<and> acceptsCreate scenarioDb \<and>
   addProductToCart scenarioDb newUser ''p9'' (Num 1) =
     (Inl (ApiError BAD_REQUEST ''Product doesn't exist in database''),
      scenarioDb\<lparr>carts := (carts scenarioDb)(user.email newUser \<mapsto>
         \<lparr>cart.email = user.email newUser, cartItems = []\<rparr>)\<rparr>) \<and>
   products refusingDb ''p9'' = None \<and>
   carts refusingDb (user.email newUser) = None \<and> \<not> acceptsCreate refusingDb \<and>
   addProductToCart refusingDb newUser ''p9'' (Num 1) =
     (Inl (ApiError INTERNAL_SERVER_ERROR []), refusingDb)"
proof -
  have h: "products scenarioDb ''p9'' = None"
    by (simp add: scenarioDb_def)
  have hs: "products staleDb ''p1'' = None"
    by (simp add: staleDb_def)
  have hr: "products refusingDb ''p9'' = None"
    by (simp add: refusingDb_def scenarioDb_def)
  have a: "carts scenarioDb (user.email scenarioUser) = Some scenarioCart \<and>
      \<not> checkProductInCart (cartItems scenarioCart) ''p9''"
    by (simp add: scenarioDb_def scenarioUser_def scenarioCart_def scenarioProduct_def)
  have s: "carts staleDb (user.email scenarioUser) = Some scenarioCart \<and>
      checkProductInCart (cartItems scenarioCart) ''p1''"
    by (simp add: staleDb_def scenarioDb_def scenarioUser_def scenarioCart_def scenarioProduct_def)
  have b: "carts scenarioDb (user.email newUser) = None \<and> acceptsCreate scenarioDb"
    by (simp add: scenarioDb_def newUser_def)
  have r: "carts refusingDb (user.email newUser) = None \<and> \<not> acceptsCreate refusingDb"
    by (simp add: refusingDb_def scenarioDb_def newUser_def)
  have r1: "addProductToCart scenarioDb scenarioUser ''p9'' (Num 1) =
     (Inl (ApiError BAD_REQUEST ''Product doesn't exist in database''), scenarioDb)"
    using a addProductToCart_unknown_product [OF h, of scenarioUser scenarioCart "Num 1"] by simp
  have r2: "addProductToCart staleDb scenarioUser ''p1'' (Num 1) =
     (Inl (ApiError BAD_REQUEST
        ''Product already in cart. Use the cart sidebar to update or remove product from cart''),
      staleDb)"
    using s addProductToCart_unknown_product [OF hs, of scenarioUser scenarioCart "Num 1"] by simp
  have r3: "addProductToCart scenarioDb newUser ''p9'' (Num 1) =
     (Inl (ApiError BAD_REQUEST ''Product doesn't exist in database''),
      scenarioDb\<lparr>carts := (carts scenarioDb)(user.email newUser \<mapsto>
         \<lparr>cart.email = user.email newUser, cartItems = []\<rparr>)\<rparr>)"
    using b addProductToCart_unknown_product [OF h, of newUser scenarioCart "Num 1"] by simp
  have r4: "addProductToCart refusingDb newUser ''p9'' (Num 1) =
     (Inl (ApiError INTERNAL_SERVER_ERROR []), refusingDb)"
    using r addProductToCart_unknown_product [OF hr, of newUser scenarioCart "Num 1"] by simp
  show ?thesis using h hs hr a s b r r1 r2 r3 r4 by simp
qed

text \<open>
  C5. For a productId that the catalog knows and that the user's cart does not hold yet,
  and for any quantity, addProductToCart succeeds and returns (and stores) the cart with
  one more line at the end, made of the product the catalog returned and the given
  quantity; the lines that were there are unchanged. A user without a cart gets one with
  this single line, the store accepting the creation (the other outcome of the creation
  is the 500 error).
\<close>

theorem addProductToCart_appends:
  assumes "products d productId = Some p"
  shows "(carts d (user.email u) = Some c \<and> \<not> checkProductInCart (cartItems c) productId \<longrightarrow>
            addProductToCart d u productId qty =
              (Inr (c\<lparr>cartItems := cartItems c @ [\<lparr>product = p, quantity = qty\<rparr>]\<rparr>),
               d\<lparr>carts := (carts d)(user.email u \<mapsto>
                    c\<lparr>cartItems := cartItems c @ [\<lparr>product = p, quantity = qty\<rparr>]\<rparr>)\<rparr>)) \<and>
         (carts d (user.email u) = None \<and> acceptsCreate d \<longrightarrow>
            addProductToCart d u productId qty =
              (Inr \<lparr>cart.email = user.email u, cartItems = [\<lparr>product = p, quantity = qty\<rparr>]\<rparr>,
               d\<lparr>carts := (carts d)(user.email u \<mapsto>
                    \<lparr>cart.email = user.email u,
                     cartItems = [\<lparr>product = p, quantity = qty\<rparr>]\<rparr>)\<rparr>))"
  using assms
  by (simp add: addProductToCart_def Cart_findOne_def Cart_create_def Product_findById_def
      Cart_save_def Let_def)

theorem addProductToCart_appends_witness:
  "products twoLineDb ''p3'' = Some thirdProduct \<and>
   carts twoLineDb (user.email twoLineUser) = Some twoLineCart \<and>
   \<not> checkProductInCart (cartItems twoLineCart) ''p3'' \<and>
   fst (addProductToCart twoLineDb twoLineUser ''p3'' (Num 4)) =
     Inr \<lparr>cart.email = ''two@qkart.com'',
          cartItems = [\<lparr>product = secondProduct, quantity = Num 1\<rparr>,
                       \<lparr>product = scenarioProduct, quantity = Num 2\<rparr>,
                       \<lparr>product = thirdProduct, quantity = Num 4\<rparr>]\<rparr> \<and>
   carts twoLineDb (user.email newUser) = None \<and> acceptsCreate twoLineDb \<and>
   fst (addProductToCart twoLineDb newUser ''p3'' (Num 4)) =
     Inr \<lparr>cart.email = ''new@qkart.com'',
          cartItems = [\<lparr>product = thirdProduct, quantity = Num 4\<rparr>]\<rparr>"
proof -
  have h: "products twoLineDb ''p3'' = Some thirdProduct"
    by (simp add: twoLineDb_def)
  have a: "carts twoLineDb (user.email twoLineUser) = Some twoLineCart \<and>
      \<not> checkProductInCart (cartItems twoLineCart) ''p3''"
    by (simp add: twoLineDb_def twoLineUser_def twoLineCart_def secondProduct_def
        scenarioProduct_def)
  have b: "carts twoLineDb (user.email newUser) = None \<and> acceptsCreate twoLineDb"
    by (simp add: twoLineDb_def newUser_def)
  have r1: "fst (addProductToCart twoLineDb twoLineUser ''p3'' (Num 4)) =
     Inr (twoLineCart\<lparr>cartItems := cartItems twoLineCart @ [\<lparr>product = thirdProduct, quantity = Num 4\<rparr>]\<rparr>)"
    using a addProductToCart_appends [OF h, of twoLineUser twoLineCart "Num 4"] by simp
  have r2: "fst (addProductToCart twoLineDb newUser ''p3'' (Num 4)) =
     Inr \<lparr>cart.email = user.email newUser, cartItems = [\<lparr>product = thirdProduct, quantity = Num 4\<rparr>]\<rparr>"
    using b addProductToCart_appends [OF h, of newUser twoLineCart "Num 4"] by simp
  show ?thesis
    using h a b r1 r2 by (simp add: twoLineCart_def newUser_def)
qed

section \<open>Updating a quantity\<close>

lemma setQuantity_first:
  "checkProductInCart items productId \<Longrightarrow>
   \<exists>i<length items.
      toString (id' (product (items ! i))) = productId \<and>
      (\<forall>j<i. toString (id' (product (items ! j))) \<noteq> productId) \<and>
      setQuantity items productId qty = items[i := (items ! i)\<lparr>quantity := qty\<rparr>]"
proof (induction items)
  case Nil
  then show ?case by simp
next
  case (Cons item items)
  show ?case
  proof (cases "toString (id' (product item)) = productId")
    case True
    then have "toString (id' (product ((item # items) ! 0))) = productId \<and>
      (\<forall>j<0. toString (id' (product ((item # items) ! j))) \<noteq> productId) \<and>
      setQuantity (item # items) productId qty =
        (item # items)[0 := ((item # items) ! 0)\<lparr>quantity := qty\<rparr>]"
      by simp
    then show ?thesis by blast
  next
    case False
    with Cons.prems have "checkProductInCart items productId" by simp
    from Cons.IH [OF this] obtain i where i: "i < length items"
      "toString (id' (product (items ! i))) = productId"
      "\<forall>j<i. toString (id' (product (items ! j))) \<noteq> productId"
      "setQuantity items productId qty = items[i := (items ! i)\<lparr>quantity := qty\<rparr>]"
      by blast
    have "\<forall>j<Suc i. toString (id' (product ((item # items) ! j))) \<noteq> productId"
    proof (intro allI impI)
      fix j assume "j < Suc i"
      then show "toString (id' (product ((item # items) ! j))) \<noteq> productId"
        using False i(3) by (cases j) auto
    qed
    moreover have "Suc i < length (item # items)" using i(1) by simp
    moreover have "toString (id' (product ((item # items) ! Suc i))) = productId"
      using i(2) by simp
    moreover have "setQuantity (item # items) productId qty =
        (item # items)[Suc i := ((item # items) ! Suc i)\<lparr>quantity := qty\<rparr>]"
      using False i(4) by simp
    ultimately show ?thesis by blast
  qed
qed

lemma checkProductInCart_setQuantity:
  "checkProductInCart (setQuantity items productId qty) productId =
   checkProductInCart items productId"
  by (induction items) auto

lemma setQuantity_idem:
  "setQuantity (setQuantity items productId qty) productId qty = setQuantity items productId qty"
  by (induction items) auto

lemma updateProductInCart_present:
  assumes "carts d (user.email u) = Some c"
    and "products d productId = Some p"
    and "checkProductInCart (cartItems c) productId"
  shows "updateProductInCart d u productId qty =
    (Inr (c\<lparr>cartItems := setQuantity (cartItems c) productId qty\<rparr>),
     d\<lparr>carts := (carts d)(user.email u \<mapsto>
          c\<lparr>cartItems := setQuantity (cartItems c) productId qty\<rparr>)\<rparr>)"
  using assms
  by (simp add: updateProductInCart_def Cart_findOne_def Product_findById_def Cart_save_def Let_def)

text \<open>
  C6. When the user's cart holds a line for a productId that the catalog knows,
  updateProductInCart returns and stores the cart in which the line for productId (the
  first one the scan meets, at index \<open>i\<close>) has the given quantity and every other
  position of the item list is as before; calling it again with the same productId and
  quantity on the store it left gives the same cart and the same store.
\<close>

theorem updateProductInCart_replaces_quantity:
  assumes "carts d (user.email u) = Some c"
    and "products d productId = Some p"
    and "checkProductInCart (cartItems c) productId"
  shows "(\<exists>i<length (cartItems c).
            toString (id' (product (cartItems c ! i))) = productId \<and>
            (\<forall>j<i. toString (id' (product (cartItems c ! j))) \<noteq> productId) \<and>
            updateProductInCart d u productId qty =
              (Inr (c\<lparr>cartItems := (cartItems c)[i := (cartItems c ! i)\<lparr>quantity := qty\<rparr>]\<rparr>),
               d\<lparr>carts := (carts d)(user.email u \<mapsto>
                    c\<lparr>cartItems := (cartItems c)[i := (cartItems c ! i)\<lparr>quantity := qty\<rparr>]\<rparr>)\<rparr>)) \<and>
         updateProductInCart (snd (updateProductInCart d u productId qty)) u productId qty =
           updateProductInCart d u productId qty"
proof
  from setQuantity_first [OF assms(3), of qty] obtain i where i: "i < length (cartItems c)"
      "toString (id' (product (cartItems c ! i))) = productId"
      "\<forall>j<i. toString (id' (product (cartItems c ! j))) \<noteq> productId"
      "setQuantity (cartItems c) productId qty =
         (cartItems c)[i := (cartItems c ! i)\<lparr>quantity := qty\<rparr>]"
    by blast
  have "updateProductInCart d u productId qty =
      (Inr (c\<lparr>cartItems := (cartItems c)[i := (cartItems c ! i)\<lparr>quantity := qty\<rparr>]\<rparr>),
       d\<lparr>carts := (carts d)(user.email u \<mapsto>
            c\<lparr>cartItems := (cartItems c)[i := (cartItems c ! i)\<lparr>quantity := qty\<rparr>]\<rparr>)\<rparr>)"
    using updateProductInCart_present [OF assms, of qty] i(4) by simp
  with i(1,2,3) show "\<exists>i<length (cartItems c).
            toString (id' (product (cartItems c ! i))) = productId \<and>
            (\<forall>j<i. toString (id' (product (cartItems c ! j))) \<noteq> productId) \<and>
            updateProductInCart d u productId qty =
              (Inr (c\<lparr>cartItems := (cartItems c)[i := (cartItems c ! i)\<lparr>quantity := qty\<rparr>]\<rparr>),
               d\<lparr>carts := (carts d)(user.email u \<mapsto>
                    c\<lparr>cartItems := (cartItems c)[i := (cartItems c ! i)\<lparr>quantity := qty\<rparr>]\<rparr>)\<rparr>)"
    by blast
next
  let ?c' = "c\<lparr>cartItems := setQuantity (cartItems c) productId qty\<rparr>"
  let ?d' = "d\<lparr>carts := (carts d)(user.email u \<mapsto> ?c')\<rparr>"
  have first: "updateProductInCart d u productId qty = (Inr ?c', ?d')"
    by (rule updateProductInCart_present [OF assms])
  have a: "carts ?d' (user.email u) = Some ?c'" by simp
  have b: "products ?d' productId = Some p" using assms(2) by simp
  have c: "checkProductInCart (cartItems ?c') productId"
    using assms(3) by (simp add: checkProductInCart_setQuantity)
  have "updateProductInCart ?d' u productId qty = (Inr ?c', ?d')"
    using updateProductInCart_present [OF a b c, of qty] by (simp add: setQuantity_idem)
  then show "updateProductInCart (snd (updateProductInCart d u productId qty)) u productId qty =
           updateProductInCart d u productId qty"
    by (simp add: first)
qed

theorem updateProductInCart_replaces_quantity_witness:
  "carts twoLineDb (user.email twoLineUser) = Some twoLineCart \<and>
   products twoLineDb ''p1'' = Some scenarioProduct \<and>
   checkProductInCart (cartItems twoLineCart) ''p1'' \<and>
   fst (updateProductInCart twoLineDb twoLineUser ''p1'' (Num 5)) =
     Inr \<lparr>cart.email = ''two@qkart.com'',
          cartItems = [\<lparr>product = secondProduct, quantity = Num 1\<rparr>,
                       \<lparr>product = scenarioProduct, quantity = Num 5\<rparr>]\<rparr> \<and>
   updateProductInCart (snd (updateProductInCart twoLineDb twoLineUser ''p1'' (Num 5)))
       twoLineUser ''p1'' (Num 5) =
     updateProductInCart twoLineDb twoLineUser ''p1'' (Num 5)"
proof -
  have h1: "carts twoLineDb (user.email twoLineUser) = Some twoLineCart"
    by (simp add: twoLineDb_def twoLineUser_def)
  have h2: "products twoLineDb ''p1'' = Some scenarioProduct"
    by (simp add: twoLineDb_def)
  have h3: "checkProductInCart (cartItems twoLineCart) ''p1''"
    by (simp add: twoLineCart_def scenarioProduct_def)
  from updateProductInCart_replaces_quantity [OF h1 h2 h3, of "Num 5"]
  obtain i where i: "i < length (cartItems twoLineCart)"
    "toString (id' (product (cartItems twoLineCart ! i))) = ''p1''"
    "updateProductInCart twoLineDb twoLineUser ''p1'' (Num 5) =
       (Inr (twoLineCart\<lparr>cartItems :=
               (cartItems twoLineCart)[i := (cartItems twoLineCart ! i)\<lparr>quantity := Num 5\<rparr>]\<rparr>),
        twoLineDb\<lparr>carts := (carts twoLineDb)(user.email twoLineUser \<mapsto>
          twoLineCart\<lparr>cartItems :=
            (cartItems twoLineCart)[i := (cartItems twoLineCart ! i)\<lparr>quantity := Num 5\<rparr>]\<rparr>)\<rparr>)"
    and idem: "updateProductInCart (snd (updateProductInCart twoLineDb twoLineUser ''p1'' (Num 5)))
         twoLineUser ''p1'' (Num 5) =
       updateProductInCart twoLineDb twoLineUser ''p1'' (Num 5)"
    by blast
  from i(1) have "i = 0 \<or> i = 1" by (auto simp: twoLineCart_def)
  with i(2) have "i = 1"
    by (auto simp: twoLineCart_def scenarioProduct_def secondProduct_def)
  with i(3) have "fst (updateProductInCart twoLineDb twoLineUser ''p1'' (Num 5)) =
     Inr \<lparr>cart.email = ''two@qkart.com'',
          cartItems = [\<lparr>product = secondProduct, quantity = Num 1\<rparr>,
                       \<lparr>product = scenarioProduct, quantity = Num 5\<rparr>]\<rparr>"
    by (simp add: twoLineCart_def)
  with h1 h2 h3 idem show ?thesis by simp
qed

section \<open>Deleting a product\<close>

lemma filter_distinct_split:
  assumes "distinct (map f xs)" and "x \<in> set xs"
  shows "\<exists>ys zs. xs = ys @ x # zs \<and> filter (\<lambda>y. f y \<noteq> f x) xs = ys @ zs"
proof -
  from split_list [OF assms(2)] obtain ys zs where xs: "xs = ys @ x # zs" by blast
  from assms(1) xs have "f x \<notin> f ` set ys" and "f x \<notin> f ` set zs"
    by auto
  then have "\<forall>y \<in> set ys. f y \<noteq> f x" and "\<forall>y \<in> set zs. f y \<noteq> f x"
    by (metis imageI)+
  then have "filter (\<lambda>y. f y \<noteq> f x) ys = ys" and "filter (\<lambda>y. f y \<noteq> f x) zs = zs"
    by (simp_all add: filter_id_conv)
  with xs have "filter (\<lambda>y. f y \<noteq> f x) xs = ys @ zs" by simp
  with xs show ?thesis by blast
qed

text \<open>
  C7. With a line for productId in the user's cart, deleteProductFromCart returns and
  stores the cart whose item list is the old one without the lines for productId, the
  other lines unchanged and in their order; when the product ids of the cart are distinct,
  this is the old list with exactly one line, the one for productId, taken out. When the
  cart holds no line for productId the call fails with 400 "Product not in cart", when the
  user has no cart it fails with 400 "User does not have a cart", and in both cases the
  store is returned as it was.
\<close>

theorem deleteProductFromCart_removes_line:
  "(carts d (user.email u) = Some c \<and> checkProductInCart (cartItems c) productId \<longrightarrow>
      deleteProductFromCart d u productId =
        (Inr (c\<lparr>cartItems :=
                filter (\<lambda>item. toString (id' (product item)) \<noteq> productId) (cartItems c)\<rparr>),
         d\<lparr>carts := (carts d)(user.email u \<mapsto> c\<lparr>cartItems :=
                filter (\<lambda>item. toString (id' (product item)) \<noteq> productId) (cartItems c)\<rparr>)\<rparr>) \<and>
      (distinct (map (\<lambda>item. toString (id' (product item))) (cartItems c)) \<longrightarrow>
         (\<exists>before item after.
            cartItems c = before @ item # after \<and>
            toString (id' (product item)) = productId \<and>
            filter (\<lambda>item. toString (id' (product item)) \<noteq> productId) (cartItems c) =
              before @ after))) \<and>
   (carts d (user.email u) = Some c \<and> \<not> checkProductInCart (cartItems c) productId \<longrightarrow>
      deleteProductFromCart d u productId =
        (Inl (ApiError BAD_REQUEST ''Product not in cart''), d)) \<and>
   (carts d (user.email u) = None \<longrightarrow>
      deleteProductFromCart d u productId =
        (Inl (ApiError BAD_REQUEST ''User does not have a cart''), d))"
proof (intro conjI impI)
  assume "carts d (user.email u) = Some c \<and> checkProductInCart (cartItems c) productId"
  then show "deleteProductFromCart d u productId =
        (Inr (c\<lparr>cartItems :=
                filter (\<lambda>item. toString (id' (product item)) \<noteq> productId) (cartItems c)\<rparr>),
         d\<lparr>carts := (carts d)(user.email u \<mapsto> c\<lparr>cartItems :=
                filter (\<lambda>item. toString (id' (product item)) \<noteq> productId) (cartItems c)\<rparr>)\<rparr>)"
    by (simp add: deleteProductFromCart_def Cart_findOne_def Cart_save_def Let_def)
next
  assume h: "carts d (user.email u) = Some c \<and> checkProductInCart (cartItems c) productId"
    and dist: "distinct (map (\<lambda>item. toString (id' (product item))) (cartItems c))"
  from h obtain item where item: "item \<in> set (cartItems c)"
      "toString (id' (product item)) = productId"
    by (auto simp: checkProductInCart_image)
  from filter_distinct_split [OF dist item(1)] item(2)
  show "\<exists>before item after.
            cartItems c = before @ item # after \<and>
            toString (id' (product item)) = productId \<and>
            filter (\<lambda>item. toString (id' (product item)) \<noteq> productId) (cartItems c) =
              before @ after"
    by blast
next
  assume "carts d (user.email u) = Some c \<and> \<not> checkProductInCart (cartItems c) productId"
  then show "deleteProductFromCart d u productId =
        (Inl (ApiError BAD_REQUEST ''Product not in cart''), d)"
    by (simp add: deleteProductFromCart_def Cart_findOne_def)
next
  assume "carts d (user.email u) = None"
  then show "deleteProductFromCart d u productId =
        (Inl (ApiError BAD_REQUEST ''User does not have a cart''), d)"
    by (simp add: deleteProductFromCart_def Cart_findOne_def)
qed

theorem deleteProductFromCart_removes_line_witness:
  "carts twoLineDb (user.email twoLineUser) = Some twoLineCart \<and>
   checkProductInCart (cartItems twoLineCart) ''p2'' \<and>
   distinct (map (\<lambda>item. toString (id' (product item))) (cartItems twoLineCart)) \<and>
   fst (deleteProductFromCart twoLineDb twoLineUser ''p2'') =
     Inr \<lparr>cart.email = ''two@qkart.com'',
          cartItems = [\<lparr>product = scenarioProduct, quantity = Num 2\<rparr>]\<rparr> \<and>
   \<not> checkProductInCart (cartItems twoLineCart) ''p3'' \<and>
   deleteProductFromCart twoLineDb twoLineUser ''p3'' =
     (Inl (ApiError BAD_REQUEST ''Product not in cart''), twoLineDb) \<and>
   carts twoLineDb (user.email newUser) = None \<and>
   deleteProductFromCart twoLineDb newUser ''p2'' =
     (Inl (ApiError BAD_REQUEST ''User does not have a cart''), twoLineDb)"
proof -
  have a: "carts twoLineDb (user.email twoLineUser) = Some twoLineCart \<and>
      checkProductInCart (cartItems twoLineCart) ''p2''"
    by (simp add: twoLineDb_def twoLineUser_def twoLineCart_def secondProduct_def)
  have dist: "distinct (map (\<lambda>item. toString (id' (product item))) (cartItems twoLineCart))"
    by (simp add: twoLineCart_def secondProduct_def scenarioProduct_def)
  have b: "carts twoLineDb (user.email twoLineUser) = Some twoLineCart \<and>
      \<not> checkProductInCart (cartItems twoLineCart) ''p3''"
    by (simp add: twoLineDb_def twoLineUser_def twoLineCart_def secondProduct_def
        scenarioProduct_def)
  have n: "carts twoLineDb (user.email newUser) = None"
    by (simp add: twoLineDb_def newUser_def)
  have r1: "fst (deleteProductFromCart twoLineDb twoLineUser ''p2'') =
     Inr (twoLineCart\<lparr>cartItems :=
       filter (\<lambda>item. toString (id' (product item)) \<noteq> ''p2'') (cartItems twoLineCart)\<rparr>)"
    using a dist deleteProductFromCart_removes_line [of twoLineDb twoLineUser twoLineCart "''p2''"]
    by simp
  have r2: "deleteProductFromCart twoLineDb twoLineUser ''p3'' =
     (Inl (ApiError BAD_REQUEST ''Product not in cart''), twoLineDb)"
    using b deleteProductFromCart_removes_line [of twoLineDb twoLineUser twoLineCart "''p3''"]
    by simp
  have r3: "deleteProductFromCart twoLineDb newUser ''p2'' =
     (Inl (ApiError BAD_REQUEST ''User does not have a cart''), twoLineDb)"
    using n deleteProductFromCart_removes_line [of twoLineDb newUser twoLineCart "''p2''"]
    by simp
  have r1': "fst (deleteProductFromCart twoLineDb twoLineUser ''p2'') =
     Inr \<lparr>cart.email = ''two@qkart.com'',
          cartItems = [\<lparr>product = scenarioProduct, quantity = Num 2\<rparr>]\<rparr>"
    by (simp add: r1) (simp add: twoLineCart_def secondProduct_def scenarioProduct_def)
  show ?thesis
    using a dist b n r1' r2 r3 by simp
qed

section \<open>The cart invariants\<close>

lemma setQuantity_ids:
  "map (\<lambda>item. toString (id' (product item))) (setQuantity items productId qty) =
   map (\<lambda>item. toString (id' (product item))) items"
  by (induction items) auto

lemma setQuantity_quantities:
  "js_le (Num 1) qty \<Longrightarrow> \<forall>item \<in> set items. js_le (Num 1) (quantity item) \<Longrightarrow>
   \<forall>item \<in> set (setQuantity items productId qty). js_le (Num 1) (quantity item)"
  by (induction items) auto

lemma cartInvariant_setQuantity:
  "js_le (Num 1) qty \<Longrightarrow> cartInvariant c \<Longrightarrow>
   cartInvariant (c\<lparr>cartItems := setQuantity (cartItems c) productId qty\<rparr>)"
  using setQuantity_quantities [of qty "cartItems c" productId]
  by (simp add: cartInvariant_def setQuantity_ids)

lemma cartInvariant_filter:
  "cartInvariant c \<Longrightarrow> cartInvariant (c\<lparr>cartItems := filter P (cartItems c)\<rparr>)"
  by (simp add: cartInvariant_def distinct_map_filter)

lemma cartInvariant_append:
  assumes "cartInvariant c"
    and "\<not> checkProductInCart (cartItems c) productId"
    and "toString (id' p) = productId"
    and "js_le (Num 1) qty"
  shows "cartInvariant (c\<lparr>cartItems := cartItems c @ [\<lparr>product = p, quantity = qty\<rparr>]\<rparr>)"
  using assms by (auto simp: cartInvariant_def checkProductInCart_image)

lemma cartInvariant_no_items: "cartInvariant (c\<lparr>cartItems := []\<rparr>)"
  by (simp add: cartInvariant_def)

lemma cartInvariant_new: "cartInvariant \<lparr>cart.email = e, cartItems = []\<rparr>"
  by (simp add: cartInvariant_def)

lemma addProductToCart_invariant:
  assumes "cartInvariantAt d e" and "js_le (Num 1) qty"
    and "\<forall>p. products d productId = Some p \<longrightarrow> toString (id' p) = productId"
  shows "cartInvariantAt (snd (addProductToCart d u productId qty)) e"
proof (cases "carts d (user.email u)")
  case None
  show ?thesis
  proof (cases "acceptsCreate d")
    case False
    with None assms(1) show ?thesis
      by (simp add: addProductToCart_def Cart_findOne_def Cart_create_def)
  next
    case True
    show ?thesis
    proof (cases "products d productId")
      case np: None
      with None True assms(1) show ?thesis
        by (simp add: addProductToCart_def Cart_findOne_def Cart_create_def
            Product_findById_def Let_def cartInvariantAt_def cartInvariant_new)
    next
      case (Some p)
      with assms(2,3) have "cartInvariant \<lparr>cart.email = user.email u,
          cartItems = [\<lparr>product = p, quantity = qty\<rparr>]\<rparr>"
        by (simp add: cartInvariant_def)
      with None True Some assms(1) show ?thesis
        by (simp add: addProductToCart_def Cart_findOne_def Cart_create_def
            Product_findById_def Cart_save_def Let_def cartInvariantAt_def)
    qed
  qed
next
  case (Some c)
  show ?thesis
  proof (cases "checkProductInCart (cartItems c) productId")
    case True
    with Some assms(1) show ?thesis
      by (simp add: addProductToCart_def Cart_findOne_def)
  next
    case False
    show ?thesis
    proof (cases "products d productId")
      case None
      with Some False assms(1) show ?thesis
        by (simp add: addProductToCart_def Cart_findOne_def Product_findById_def)
    next
      case sp: (Some p)
      show ?thesis
      proof (cases "e = user.email u")
        case True
        with Some assms(1) have "cartInvariant c" by (simp add: cartInvariantAt_def)
        from cartInvariant_append [OF this False _ assms(2), of p] sp assms(3)
        have "cartInvariant (c\<lparr>cartItems := cartItems c @ [\<lparr>product = p, quantity = qty\<rparr>]\<rparr>)"
          by simp
        with Some False sp True show ?thesis
          by (simp add: addProductToCart_def Cart_findOne_def Product_findById_def
              Cart_save_def Let_def cartInvariantAt_def)
      next
        case ne: False
        with Some False sp assms(1) show ?thesis
          by (simp add: addProductToCart_def Cart_findOne_def Product_findById_def
              Cart_save_def Let_def cartInvariantAt_def)
      qed
    qed
  qed
qed

lemma updateProductInCart_invariant:
  assumes "cartInvariantAt d e" and "js_le (Num 1) qty"
  shows "cartInvariantAt (snd (updateProductInCart d u productId qty)) e"
proof (cases "carts d (user.email u)")
  case None
  with assms(1) show ?thesis
    by (simp add: updateProductInCart_def Cart_findOne_def)
next
  case (Some c)
  show ?thesis
  proof (cases "e = user.email u")
    case True
    with Some assms(1) have "cartInvariant c" by (simp add: cartInvariantAt_def)
    from cartInvariant_setQuantity [OF assms(2) this] Some True assms(1) show ?thesis
      by (simp add: updateProductInCart_def Cart_findOne_def Product_findById_def
          Cart_save_def Let_def cartInvariantAt_def split: option.split)
  next
    case False
    with Some assms(1) show ?thesis
      by (auto simp: updateProductInCart_def Cart_findOne_def Product_findById_def
          Cart_save_def Let_def cartInvariantAt_def split: option.splits)
  qed
qed

lemma deleteProductFromCart_invariant:
  assumes "cartInvariantAt d e"
  shows "cartInvariantAt (snd (deleteProductFromCart d u productId)) e"
proof (cases "carts d (user.email u)")
  case None
  with assms show ?thesis
    by (simp add: deleteProductFromCart_def Cart_findOne_def)
next
  case (Some c)
  show ?thesis
  proof (cases "e = user.email u")
    case True
    with Some assms have "cartInvariant c" by (simp add: cartInvariantAt_def)
    from cartInvariant_filter [OF this] Some True assms show ?thesis
      by (simp add: deleteProductFromCart_def Cart_findOne_def Cart_save_def Let_def
          cartInvariantAt_def)
  next
    case False
    with Some assms show ?thesis
      by (simp add: deleteProductFromCart_def Cart_findOne_def Cart_save_def Let_def
          cartInvariantAt_def)
  qed
qed

lemma checkout_invariant:
  assumes "cartInvariantAt d e"
  shows "cartInvariantAt (fst (snd (checkout d u))) e"
proof (cases "carts d (user.email u)")
  case None
  with assms show ?thesis
    by (simp add: checkout_def getCartByUser_def Cart_findOne_def)
next
  case (Some c)
  show ?thesis
  proof (cases "cartItems c = []")
    case True
    with Some assms show ?thesis
      by (simp add: checkout_def getCartByUser_def Cart_findOne_def)
  next
    case False
    with Some assms show ?thesis
      by (simp add: checkout_def getCartByUser_def Cart_findOne_def reduce_cartTotal
          Cart_save_def User_save_def Let_def cartInvariantAt_def cartInvariant_no_items)
  qed
qed

text \<open>
  C9, as stated, fails: the service puts the quantity it is given into the cart without
  looking at it, so an update to quantity 0 takes a cart that satisfies the invariants to
  one that does not.
\<close>

theorem cart_invariants_counterexample:
  "cartInvariantAt scenarioDb ''crio@qkart.com'' \<and>
   fst (updateProductInCart scenarioDb scenarioUser ''p1'' (Num 0)) =
     Inr \<lparr>cart.email = ''crio@qkart.com'',
          cartItems = [\<lparr>product = scenarioProduct, quantity = Num 0\<rparr>]\<rparr> \<and>
   \<not> cartInvariantAt (snd (updateProductInCart scenarioDb scenarioUser ''p1'' (Num 0))) ''crio@qkart.com''"
  by (simp add: cartInvariantAt_def cartInvariant_def updateProductInCart_def Cart_findOne_def
      Product_findById_def Cart_save_def Let_def scenarioDb_def scenarioUser_def scenarioCart_def
      scenarioProduct_def js_le_def)

text \<open>
  C9, amended. Let the cart stored for an email satisfy the invariants (distinct product
  ids, every quantity at least 1 by \<^verbatim>\<open><=\<close>), or let there be none. Then the cart stored for that
  email after addProductToCart, updateProductInCart, deleteProductFromCart or checkout
  satisfies them too, for any user and productId, when the quantity passed to add and
  update is at least 1 (\<^verbatim>\<open>1 <= quantity\<close>) and the catalog returns for the productId passed to add only a
  product whose id string is that productId. The cart that getCartByUser returns is the
  stored one, and getCartByUser writes nothing.
\<close>

theorem cart_operations_preserve_invariants:
  assumes "cartInvariantAt d e"
  shows "(js_le (Num 1) qty \<and> (\<forall>p. products d productId = Some p \<longrightarrow> toString (id' p) = productId) \<longrightarrow>
            cartInvariantAt (snd (addProductToCart d u productId qty)) e) \<and>
         (js_le (Num 1) qty \<longrightarrow> cartInvariantAt (snd (updateProductInCart d u productId qty)) e) \<and>
         cartInvariantAt (snd (deleteProductFromCart d u productId)) e \<and>
         cartInvariantAt (fst (snd (checkout d u))) e \<and>
         (\<forall>c. getCartByUser d u = Inr c \<longrightarrow> carts d (user.email u) = Some c)"
proof (intro conjI impI allI)
  assume "js_le (Num 1) qty \<and> (\<forall>p. products d productId = Some p \<longrightarrow> toString (id' p) = productId)"
  then show "cartInvariantAt (snd (addProductToCart d u productId qty)) e"
    using addProductToCart_invariant [OF assms] by blast
next
  assume "js_le (Num 1) qty"
  then show "cartInvariantAt (snd (updateProductInCart d u productId qty)) e"
    by (rule updateProductInCart_invariant [OF assms])
next
  show "cartInvariantAt (snd (deleteProductFromCart d u productId)) e"
    by (rule deleteProductFromCart_invariant [OF assms])
next
  show "cartInvariantAt (fst (snd (checkout d u))) e"
    by (rule checkout_invariant [OF assms])
next
  fix c assume "getCartByUser d u = Inr c"
  then show "carts d (user.email u) = Some c"
    by (simp add: getCartByUser_def Cart_findOne_def split: option.splits)
qed

theorem cart_operations_preserve_invariants_witness:
  "cartInvariantAt twoLineDb ''two@qkart.com'' \<and>
   js_le (Num 1) (Num 4) \<and>
   products twoLineDb ''p3'' = Some thirdProduct \<and> toString (id' thirdProduct) = ''p3'' \<and>
   products twoLineDb ''p1'' = Some scenarioProduct \<and> toString (id' scenarioProduct) = ''p1'' \<and>
   fst (addProductToCart twoLineDb twoLineUser ''p3'' (Num 4)) =
     Inr \<lparr>cart.email = ''two@qkart.com'',
          cartItems = [\<lparr>product = secondProduct, quantity = Num 1\<rparr>,
                       \<lparr>product = scenarioProduct, quantity = Num 2\<rparr>,
                       \<lparr>product = thirdProduct, quantity = Num 4\<rparr>]\<rparr> \<and>
   cartInvariantAt (snd (addProductToCart twoLineDb twoLineUser ''p3'' (Num 4))) ''two@qkart.com'' \<and>
   cartInvariantAt (snd (updateProductInCart twoLineDb twoLineUser ''p1'' (Num 4))) ''two@qkart.com'' \<and>
   cartInvariantAt (snd (deleteProductFromCart twoLineDb twoLineUser ''p1'')) ''two@qkart.com'' \<and>
   cartInvariantAt (fst (snd (checkout twoLineDb twoLineUser))) ''two@qkart.com'' \<and>
   getCartByUser twoLineDb twoLineUser = Inr twoLineCart \<and>
   carts twoLineDb (user.email twoLineUser) = Some twoLineCart"
proof -
  have h: "cartInvariantAt twoLineDb ''two@qkart.com''"
    by (simp add: cartInvariantAt_def cartInvariant_def twoLineDb_def twoLineCart_def
        secondProduct_def scenarioProduct_def js_le_def)
  have q: "js_le (Num 1) (Num 4)" by (simp add: js_le_def)
  have k3: "products twoLineDb ''p3'' = Some thirdProduct \<and> toString (id' thirdProduct) = ''p3''"
    by (simp add: twoLineDb_def thirdProduct_def)
  have k1: "products twoLineDb ''p1'' = Some scenarioProduct \<and>
      toString (id' scenarioProduct) = ''p1''"
    by (simp add: twoLineDb_def scenarioProduct_def)
  have g: "getCartByUser twoLineDb twoLineUser = Inr twoLineCart"
    by (simp add: getCartByUser_def Cart_findOne_def twoLineDb_def twoLineUser_def)
  have a: "fst (addProductToCart twoLineDb twoLineUser ''p3'' (Num 4)) =
     Inr \<lparr>cart.email = ''two@qkart.com'',
          cartItems = [\<lparr>product = secondProduct, quantity = Num 1\<rparr>,
                       \<lparr>product = scenarioProduct, quantity = Num 2\<rparr>,
                       \<lparr>product = thirdProduct, quantity = Num 4\<rparr>]\<rparr>"
    by (simp add: addProductToCart_def Cart_findOne_def Product_findById_def Cart_save_def
        Let_def twoLineDb_def twoLineUser_def twoLineCart_def secondProduct_def
        scenarioProduct_def)
  show ?thesis
    using h q k3 k1 g a
      cart_operations_preserve_invariants [OF h, of "Num 4" "''p3''" twoLineUser]
      cart_operations_preserve_invariants [OF h, of "Num 4" "''p1''" twoLineUser]
    by simp
qed

end
